theory Spec2Isabelle
  imports Main
begin

section \<open>Python values used by api\_tester.py\<close>

text \<open>
  A Python \<open>str\<close> is a sequence of Unicode code points, so it is modelled as a list of
  natural numbers. The messages of the program contain Chinese text and emoji; they are
  written as code point lists, the ASCII parts with \<open>ascii\<close>.
\<close>

type_synonym pystr = "nat list"

abbreviation ascii :: "string \<Rightarrow> pystr" where
  "ascii s \<equiv> map of_char s"

text \<open>
  \<open>str.isspace\<close> for one code point: the white space that \<open>str.strip()\<close> removes.
\<close>

definition isspace :: "nat \<Rightarrow> bool" where
  "isspace c \<longleftrightarrow>
     (9 \<le> c \<and> c \<le> 13) \<or> (28 \<le> c \<and> c \<le> 32) \<or> c = 133 \<or> c = 160 \<or> c = 5760 \<or>
     (8192 \<le> c \<and> c \<le> 8202) \<or> c = 8232 \<or> c = 8233 \<or> c = 8239 \<or> c = 8287 \<or> c = 12288"

text \<open>\<open>s.strip()\<close>: leading and trailing white space removed.\<close>

definition strip :: "pystr \<Rightarrow> pystr" where
  "strip s = rev (dropWhile isspace (rev (dropWhile isspace s)))"

text \<open>
  \<open>s.split(sep, 1)\<close> for a separator of one character: at most one split, at the first
  occurrence of the separator.
\<close>

definition split1 :: "nat \<Rightarrow> pystr \<Rightarrow> pystr list" where
  "split1 sep s =
     (if sep \<in> set s
      then [takeWhile (\<lambda>c. c \<noteq> sep) s, tl (dropWhile (\<lambda>c. c \<noteq> sep) s)]
      else [s])"

text \<open>
  \<open>key, value = xs\<close>: unpacking into two names raises \<open>ValueError\<close> (here \<open>None\<close>) unless
  the list has exactly two elements.
\<close>

fun unpack2 :: "'a list \<Rightarrow> ('a \<times> 'a) option" where
  "unpack2 [a, b] = Some (a, b)"
| "unpack2 _ = None"

text \<open>
  A Python \<open>dict\<close> keeps its keys in insertion order: an association list with distinct
  keys. \<open>d[k] = v\<close> replaces the value of a key that is present, at its place, and appends
  a new key at the end.
\<close>

type_synonym pydict = "(pystr \<times> pystr) list"

fun dict_set :: "pydict \<Rightarrow> pystr \<Rightarrow> pystr \<Rightarrow> pydict" where
  "dict_set [] k v = [(k, v)]"
| "dict_set ((k', v') # d) k v =
     (if k' = k then (k', v) # d else (k', v') # dict_set d k v)"

text \<open>\<open>str(n)\<close> for an \<open>int\<close>: decimal digits, with a minus sign when negative.\<close>

function digits :: "int \<Rightarrow> pystr" where
  "digits n = (if n < 10 then [nat (48 + n)] else digits (n div 10) @ [nat (48 + n mod 10)])"
  by pat_completeness auto
termination
  by (relation "measure nat") auto

declare digits.simps [simp del]

definition str_int :: "int \<Rightarrow> pystr" where
  "str_int i = (if i < 0 then 45 # digits (- i) else digits i)"

subsection \<open>Floats\<close>

text \<open>
  A Python \<open>float\<close> is an IEEE 754 binary64 number: \<open>Finite s m e\<close> is
  \<open>(-1)^s * m * 2^e\<close>, in canonical form \<open>2^52 \<le> m < 2^53\<close> and \<open>-1074 \<le> e \<le> 971\<close>
  (normal), \<open>0 < m < 2^52\<close> and \<open>e = -1074\<close> (subnormal) or \<open>m = 0\<close> and \<open>e = 0\<close> (zero).
\<close>

datatype pyfloat = Finite bool int int | Infinity bool | NaN

text \<open>\<open>n.bit_length()\<close>.\<close>

function bit_length :: "int \<Rightarrow> int" where
  "bit_length n = (if n \<le> 0 then 0 else 1 + bit_length (n div 2))"
  by pat_completeness auto
termination
  by (relation "measure nat") auto

declare bit_length.simps [simp del]

text \<open>\<open>2^e\<close> for an exponent that is not negative.\<close>

definition pow2 :: "int \<Rightarrow> int" where
  "pow2 e = 2 ^ nat e"

definition pow10 :: "int \<Rightarrow> int" where
  "pow10 e = 10 ^ nat e"

text \<open>The quotient \<open>a / b\<close> rounded to the nearest integer, ties to even.\<close>

definition rne_pick :: "int \<Rightarrow> int \<Rightarrow> int \<Rightarrow> int" where
  "rne_pick f r b = (if b < 2 * r \<or> (2 * r = b \<and> odd f) then f + 1 else f)"

definition rne_div :: "int \<Rightarrow> int \<Rightarrow> int" where
  "rne_div a b = rne_pick (a div b) (a mod b) b"

text \<open>The integer part of the binary logarithm of the positive rational \<open>p / q\<close>.\<close>

definition floorlog2_near :: "int \<Rightarrow> int \<Rightarrow> int \<Rightarrow> int" where
  "floorlog2_near p q l =
     (if (if 0 \<le> l then q * pow2 l \<le> p else q \<le> p * pow2 (- l)) then l else l - 1)"

definition floorlog2 :: "int \<Rightarrow> int \<Rightarrow> int" where
  "floorlog2 p q = floorlog2_near p q (bit_length p - bit_length q)"

text \<open>
  Rounding the positive rational \<open>p / q\<close> to the nearest binary64 number, ties to even:
  the canonical \<open>(m, e)\<close>, \<open>(0, 0)\<close> when it rounds to zero, \<open>None\<close> when it is too
  large for a finite float.
\<close>

definition double_range :: "int \<Rightarrow> int \<Rightarrow> (int \<times> int) option" where
  "double_range m e = (if 971 < e then None else if m = 0 then Some (0, 0) else Some (m, e))"

definition double_carry :: "int \<Rightarrow> int \<Rightarrow> (int \<times> int) option" where
  "double_carry m e = (if m = pow2 53 then double_range (pow2 52) (e + 1) else double_range m e)"

definition round_at :: "int \<Rightarrow> int \<Rightarrow> int \<Rightarrow> (int \<times> int) option" where
  "round_at p q e =
     double_carry (if 0 \<le> e then rne_div p (q * pow2 e) else rne_div (p * pow2 (- e)) q) e"

definition round_double :: "int \<Rightarrow> int \<Rightarrow> (int \<times> int) option" where
  "round_double p q = round_at p q (max (floorlog2 p q - 52) (- 1074))"

text \<open>\<open>m * 2^e\<close> as a fraction.\<close>

definition frac_of_float :: "int \<Rightarrow> int \<Rightarrow> int \<times> int" where
  "frac_of_float m e = (if 0 \<le> e then (m * pow2 e, 1) else (m, pow2 (- e)))"

text \<open>\<open>float(v)\<close> for an \<open>int\<close>; \<open>None\<close> is \<open>OverflowError\<close>.\<close>

fun int_rounded :: "bool \<Rightarrow> (int \<times> int) option \<Rightarrow> pyfloat option" where
  "int_rounded s None = None"
| "int_rounded s (Some (m, e)) = Some (Finite s m e)"

definition float_of_int :: "int \<Rightarrow> pyfloat option" where
  "float_of_int v =
     (if v = 0 then Some (Finite False 0 0) else int_rounded (v < 0) (round_double \<bar>v\<bar> 1))"

text \<open>
  \<open>x / y\<close> on floats: the exact quotient, rounded; \<open>None\<close> is \<open>ZeroDivisionError\<close>.
  A quotient too large for a finite float is an infinity.
\<close>

fun of_rounded :: "bool \<Rightarrow> (int \<times> int) option \<Rightarrow> pyfloat" where
  "of_rounded s None = Infinity s"
| "of_rounded s (Some (m, e)) = Finite s m e"

fun frac_div :: "int \<times> int \<Rightarrow> int \<times> int \<Rightarrow> (int \<times> int) option" where
  "frac_div (p, q) (p', q') = round_double (p * q') (q * p')"

fun float_truediv :: "pyfloat \<Rightarrow> pyfloat \<Rightarrow> pyfloat option" where
  "float_truediv (Finite s m e) (Finite t n f) =
     (if n = 0 then None
      else if m = 0 then Some (Finite (s \<noteq> t) 0 0)
      else Some (of_rounded (s \<noteq> t) (frac_div (frac_of_float m e) (frac_of_float n f))))"
| "float_truediv (Infinity s) (Finite t n f) =
     (if n = 0 then None else Some (Infinity (s \<noteq> t)))"
| "float_truediv NaN (Finite t n f) = (if n = 0 then None else Some NaN)"
| "float_truediv x NaN = Some NaN"
| "float_truediv (Finite s m e) (Infinity t) = Some (Finite (s \<noteq> t) 0 0)"
| "float_truediv (Infinity s) (Infinity t) = Some NaN"
| "float_truediv NaN (Infinity t) = Some NaN"

text \<open>The float literal \<open>10.0\<close>.\<close>

definition float_10 :: pyfloat where
  "float_10 = Finite False 5629499534213120 (- 49)"

text \<open>
  \<open>repr(x)\<close>, which is also \<open>str(x)\<close> and what an f-string prints: the shortest decimal
  digit string that rounds back to \<open>x\<close> (the one nearest to \<open>x\<close>, an even last digit on a
  tie), written positionally when the decimal exponent is between \<open>-4\<close> and \<open>16\<close> and
  in scientific notation otherwise.
\<close>

function lead_zeros :: "int \<Rightarrow> int \<Rightarrow> int" where
  "lead_zeros p q = (if p \<le> 0 \<or> q \<le> 10 * p then 0 else 1 + lead_zeros (10 * p) q)"
  by pat_completeness auto
termination
  by (relation "measure (\<lambda>(p, q). nat (q - p))") auto

declare lead_zeros.simps [simp del]

text \<open>The decimal exponent \<open>k\<close> of \<open>p / q\<close>: \<open>10^(k-1) \<le> p / q < 10^k\<close>.\<close>

definition dec_exp :: "int \<Rightarrow> int \<Rightarrow> int" where
  "dec_exp p q =
     (if q \<le> p then int (length (digits (p div q))) else - lead_zeros p q)"

text \<open>
  Whether the decimal \<open>D * 10^(k-n)\<close> of \<open>n\<close> digits rounds to the float \<open>(m, e)\<close>.
\<close>

definition rounds_to :: "int \<Rightarrow> int \<Rightarrow> int \<Rightarrow> int \<Rightarrow> int \<Rightarrow> bool" where
  "rounds_to m e k n D \<longleftrightarrow>
     0 < D \<and>
     (if n \<le> k then round_double (D * pow10 (k - n)) 1
      else round_double D (pow10 (n - k))) = Some (m, e)"

text \<open>
  The two decimals of \<open>n\<close> digits next to \<open>a / b = (p / q) / 10^(k-n)\<close>, the nearer one
  first (the even one on a tie): the first that rounds to \<open>(m, e)\<close>.
\<close>

definition try_near_far :: "int \<Rightarrow> int \<Rightarrow> int \<Rightarrow> int \<Rightarrow> int \<Rightarrow> int \<Rightarrow> int option" where
  "try_near_far m e k n near far =
     (if rounds_to m e k n near then Some near
      else if rounds_to m e k n far then Some far
      else None)"

definition try_floor :: "int \<Rightarrow> int \<Rightarrow> int \<Rightarrow> int \<Rightarrow> int \<Rightarrow> int \<Rightarrow> int \<Rightarrow> int option" where
  "try_floor m e k n lo r b =
     (if 2 * r < b \<or> (2 * r = b \<and> even lo)
      then try_near_far m e k n lo (lo + 1)
      else try_near_far m e k n (lo + 1) lo)"

definition try_frac :: "int \<Rightarrow> int \<Rightarrow> int \<Rightarrow> int \<Rightarrow> int \<Rightarrow> int \<Rightarrow> int option" where
  "try_frac m e k n a b = try_floor m e k n (a div b) (a mod b) b"

definition try_digits :: "int \<Rightarrow> int \<Rightarrow> int \<Rightarrow> int \<Rightarrow> int \<Rightarrow> int \<Rightarrow> int option" where
  "try_digits m e p q k n =
     (if k \<le> n then try_frac m e k n (p * pow10 (n - k)) q
      else try_frac m e k n p (q * pow10 (k - n)))"

text \<open>The least number of digits, from \<open>n\<close> on, for which \<open>f\<close> finds a decimal.\<close>

fun shortest_from :: "nat \<Rightarrow> int \<Rightarrow> (int \<Rightarrow> int option) \<Rightarrow> (int \<times> int) option"
  and found_or_next :: "nat \<Rightarrow> int \<Rightarrow> (int \<Rightarrow> int option) \<Rightarrow> int option \<Rightarrow> (int \<times> int) option" where
  "shortest_from 0 n f = None"
| "shortest_from (Suc count) n f = found_or_next count n f (f n)"
| "found_or_next count n f (Some D) = Some (D, n)"
| "found_or_next count n f None = shortest_from count (n + 1) f"

text \<open>The digits (no trailing zeros) and the decimal exponent of the shortest string.\<close>

definition digits_exp :: "int \<Rightarrow> int \<Rightarrow> pystr \<Rightarrow> pystr \<times> int" where
  "digits_exp k n ds = (rev (dropWhile (\<lambda>c. c = 48) (rev ds)), k + int (length ds) - n)"

fun shortest_result :: "int \<Rightarrow> (int \<times> int) option \<Rightarrow> (pystr \<times> int) option" where
  "shortest_result k None = None"
| "shortest_result k (Some (D, n)) = Some (digits_exp k n (digits D))"

definition shortest_at :: "int \<Rightarrow> int \<Rightarrow> int \<Rightarrow> int \<Rightarrow> int \<Rightarrow> (pystr \<times> int) option" where
  "shortest_at m e p q k = shortest_result k (shortest_from 17 1 (try_digits m e p q k))"

fun shortest_frac :: "int \<Rightarrow> int \<Rightarrow> int \<times> int \<Rightarrow> (pystr \<times> int) option" where
  "shortest_frac m e (p, q) = shortest_at m e p q (dec_exp p q)"

definition shortest :: "int \<Rightarrow> int \<Rightarrow> (pystr \<times> int) option" where
  "shortest m e = shortest_frac m e (frac_of_float m e)"

fun float_sci :: "pystr \<Rightarrow> int \<Rightarrow> pystr" where
  "float_sci [] x = []"
| "float_sci (d # rest) x =
     d # (if rest = [] then [] else 46 # rest) @ [101] @
     (if x < 0 then [45] else [43]) @ (if \<bar>x\<bar> < 10 then [48] else []) @ digits \<bar>x\<bar>"

definition float_fmt :: "pystr \<Rightarrow> int \<Rightarrow> pystr" where
  "float_fmt ds k =
     (if - 4 < k \<and> k \<le> 16 then
        (if k \<le> 0 then ascii ''0.'' @ replicate (nat (- k)) 48 @ ds
         else if int (length ds) \<le> k then ds @ replicate (nat k - length ds) 48 @ ascii ''.0''
         else take (nat k) ds @ [46] @ drop (nat k) ds)
      else float_sci ds (k - 1))"

fun repr_shortest :: "(pystr \<times> int) option \<Rightarrow> pystr" where
  "repr_shortest None = []"
| "repr_shortest (Some (ds, k)) = float_fmt ds k"

fun repr_rounded :: "(int \<times> int) option \<Rightarrow> pystr" where
  "repr_rounded None = ascii ''inf''"
| "repr_rounded (Some (m, e)) = (if m = 0 then ascii ''0.0'' else repr_shortest (shortest m e))"

fun repr_frac :: "int \<times> int \<Rightarrow> pystr" where
  "repr_frac (p, q) = repr_rounded (round_double p q)"

fun float_repr :: "pyfloat \<Rightarrow> pystr" where
  "float_repr NaN = ascii ''nan''"
| "float_repr (Infinity s) = (if s then ascii ''-inf'' else ascii ''inf'')"
| "float_repr (Finite s m e) =
     (if s then [45] else []) @
     (if m \<le> 0 then ascii ''0.0'' else repr_frac (frac_of_float m e))"

subsection \<open>JSON values\<close>

text \<open>
  The values \<open>json.loads\<close> returns (it accepts \<open>NaN\<close> and \<open>Infinity\<close> too). JSON \<open>null\<close> is
  Python's \<open>None\<close>.
\<close>

datatype json =
    JNull
  | JBool bool
  | JInt int
  | JFloat pyfloat
  | JStr pystr
  | JList "json list"
  | JDict "(pystr \<times> json) list"

text \<open>Truth value testing, as \<open>if v:\<close> does it.\<close>

fun truthy :: "json \<Rightarrow> bool" where
  "truthy JNull = False"
| "truthy (JBool b) = b"
| "truthy (JInt i) = (i \<noteq> 0)"
| "truthy (JFloat (Finite s m e)) = (m \<noteq> 0)"
| "truthy (JFloat (Infinity s)) = True"
| "truthy (JFloat NaN) = True"
| "truthy (JStr s) = (s \<noteq> [])"
| "truthy (JList xs) = (xs \<noteq> [])"
| "truthy (JDict kvs) = (kvs \<noteq> [])"

text \<open>An optional \<open>str\<close> (\<open>None\<close> or a string) is true when it is a non-empty string.\<close>

fun truthy_str :: "pystr option \<Rightarrow> bool" where
  "truthy_str None = False"
| "truthy_str (Some s) = (s \<noteq> [])"

section \<open>The program state and its collaborators\<close>

text \<open>
  What \<open>requests.request\<close> is called with. The headers are the contents of the dictionary
  that is passed, read when the call is made (\<open>None\<close> when no dictionary is passed).
\<close>

record request =
  req_method :: pystr
  req_url :: pystr
  req_headers :: "pydict option"
  req_data :: "pystr option"
  req_json :: json
  req_timeout :: nat

text \<open>
  The outcome of a call that parses JSON (\<open>json.loads\<close>, \<open>json.load\<close>, \<open>response.json()\<close>):
  the value, \<open>json.JSONDecodeError\<close>, or another exception with its \<open>str(e)\<close> (for
  instance \<open>RecursionError\<close> for deeply nested brackets, \<open>ValueError\<close> for an integer of
  more digits than the interpreter converts), which is not a \<open>RequestException\<close>.
\<close>

datatype json_result = Parsed json | JSONDecodeError | JsonRaises pystr

text \<open>
  The outcome of a call that can only fail with an exception the program does not name
  (\<open>json.dumps\<close>): the value, or the exception's \<open>str(e)\<close>.
\<close>

datatype 'a raising = Returns 'a | Raises pystr

text \<open>
  What the program reads of a \<open>requests.Response\<close>: \<open>raw.version\<close>, \<open>status_code\<close>,
  \<open>reason\<close>, \<open>url\<close>, \<open>headers.items()\<close>, \<open>text\<close>, and the outcome of \<open>json()\<close>.
\<close>

record response =
  raw_version :: int
  status_code :: int
  reason :: pystr
  resp_url :: pystr
  resp_headers :: pydict
  resp_text :: pystr
  resp_json :: json_result

text \<open>
  The exceptions the \<open>except\<close> clauses of \<open>make_request\<close> tell apart, each with its
  \<open>str(e)\<close>: \<open>requests.exceptions.HTTPError\<close> (with its \<open>response\<close> attribute), any other
  \<open>requests.exceptions.RequestException\<close>, and any other \<open>Exception\<close>.
\<close>

datatype exn =
    HTTPError pystr "response option"
  | RequestException pystr
  | OtherException pystr

text \<open>The outcome of \<open>open(path, 'r', encoding='utf-8')\<close> followed by reading the file.\<close>

datatype file_result =
    FileNotFoundError
  | OtherFileError pystr
  | FileText pystr

text \<open>
  The collaborators of the program, as parameters: \<open>requests.request\<close>; \<open>json.loads\<close>;
  \<open>json.dumps(v, indent=n, ensure_ascii=b)\<close>; \<open>str.upper\<close>; reading a file; and the
  encoder of \<open>sys.stdout\<close>: \<open>print_error l\<close> is \<open>None\<close> when the string \<open>l\<close> can be written
  and the \<open>str(e)\<close> of the \<open>UnicodeEncodeError\<close> that \<open>print(l)\<close> raises otherwise (on a
  UTF-8 terminal, for a string with a lone surrogate).

  \<open>response_received\<close> is not read by the program: it records whether the transport had
  received any response when the call of \<open>requests.request\<close> ended, so that statements
  can speak of the cause of a failure.
\<close>

record env =
  transport :: "request \<Rightarrow> exn + response"
  response_received :: "request \<Rightarrow> bool"
  json_loads :: "pystr \<Rightarrow> json_result"
  json_dumps :: "nat \<Rightarrow> bool \<Rightarrow> json \<Rightarrow> pystr raising"
  str_upper :: "pystr \<Rightarrow> pystr"
  open_read :: "pystr \<Rightarrow> file_result"
  print_error :: "pystr \<Rightarrow> pystr option"

text \<open>
  The state: the dictionaries the program creates (an address is an index of \<open>heap\<close>), the
  strings printed so far (one entry for each call of \<open>print\<close> that succeeded) and the
  calls of \<open>requests.request\<close> made so far.
\<close>

record state =
  heap :: "pydict list"
  stdout :: "pystr list"
  sent :: "request list"

definition init_state :: state where
  "init_state = \<lparr>heap = [], stdout = [], sent = []\<rparr>"

text \<open>
  A statement: from a state to the exception that ends it (\<open>None\<close> when it completes) and
  the state it leaves.
\<close>

type_synonym cmd = "state \<Rightarrow> exn option \<times> state"

text \<open>Statements one after the other: the first exception ends the sequence.\<close>

fun block :: "cmd list \<Rightarrow> cmd" where
  "block [] s = (None, s)"
| "block (c # cs) s = (case c s of (None, s') \<Rightarrow> block cs s' | (Some e, s') \<Rightarrow> (Some e, s'))"

text \<open>\<open>print(l)\<close>: the string is written, or \<open>UnicodeEncodeError\<close> is raised and nothing is.\<close>

definition print :: "env \<Rightarrow> pystr \<Rightarrow> cmd" where
  "print E l s =
     (case print_error E l of
        None \<Rightarrow> (None, s\<lparr>stdout := stdout s @ [l]\<rparr>)
      | Some msg \<Rightarrow> (Some (OtherException msg), s))"

text \<open>
  \<open>print(...)\<close> of an expression whose evaluation can raise: the exception of the
  expression, or the print of its value.
\<close>

definition print_value :: "env \<Rightarrow> exn + pystr \<Rightarrow> cmd" where
  "print_value E x s = (case x of Inl e \<Rightarrow> (Some e, s) | Inr l \<Rightarrow> print E l s)"

text \<open>A new dictionary with the given contents (\<open>{}\<close> or \<open>d.copy()\<close>).\<close>

definition alloc :: "pydict \<Rightarrow> state \<Rightarrow> nat \<times> state" where
  "alloc d s = (length (heap s), s\<lparr>heap := heap s @ [d]\<rparr>)"

text \<open>\<open>d[k] = v\<close> for the dictionary at address \<open>a\<close>.\<close>

definition setitem :: "nat \<Rightarrow> pystr \<Rightarrow> pystr \<Rightarrow> state \<Rightarrow> state" where
  "setitem a k v s = s\<lparr>heap := (heap s)[a := dict_set (heap s ! a) k v]\<rparr>"

text \<open>\<open>for key, value in d.items(): print(f"{prefix}{key}: {value}")\<close>.\<close>

definition item_line :: "pystr \<Rightarrow> pystr \<times> pystr \<Rightarrow> pystr" where
  "item_line prefix kv = prefix @ fst kv @ ascii '': '' @ snd kv"

definition print_items :: "env \<Rightarrow> pystr \<Rightarrow> pydict \<Rightarrow> cmd" where
  "print_items E prefix d = block (map (\<lambda>kv. print E (item_line prefix kv)) d)"

text \<open>\<open>json.dumps(v, indent=2, ensure_ascii=False)\<close>, as both calls of the program have it.\<close>

definition dumps_indented :: "env \<Rightarrow> json \<Rightarrow> exn + pystr" where
  "dumps_indented E v =
     (case json_dumps E 2 False v of
        Raises msg \<Rightarrow> Inl (OtherException msg)
      | Returns text \<Rightarrow> Inr text)"

section \<open>Library behaviour of requests.Response\<close>

text \<open>
  \<open>Response.raise_for_status()\<close>: raises \<open>HTTPError\<close>, with the response attached, for a
  status from 400 to 599; \<open>None\<close> is a normal return.
\<close>

definition raise_for_status :: "response \<Rightarrow> exn option" where
  "raise_for_status r =
     (if 400 \<le> status_code r \<and> status_code r < 500 then
        Some (HTTPError (str_int (status_code r) @ ascii '' Client Error: '' @ reason r @
                         ascii '' for url: '' @ resp_url r) (Some r))
      else if 500 \<le> status_code r \<and> status_code r < 600 then
        Some (HTTPError (str_int (status_code r) @ ascii '' Server Error: '' @ reason r @
                         ascii '' for url: '' @ resp_url r) (Some r))
      else None)"

text \<open>
  The truth value of a \<open>Response\<close>: \<open>Response.__bool__\<close> returns \<open>Response.ok\<close>, which is
  true when \<open>raise_for_status()\<close> does not raise.
\<close>

definition response_bool :: "response \<Rightarrow> bool" where
  "response_bool r \<longleftrightarrow> raise_for_status r = None"

section \<open>make\_request\<close>

subsection \<open>The messages\<close>

text \<open>The string literals of \<open>make_request\<close>, by the line of the source they stand on.\<close>

definition banner_request :: pystr where \<comment> \<open>line 27\<close>
  "banner_request =
     ascii ''---------- '' @ [128640] @ ascii '' '' @ [21457, 36865, 35831, 27714] @
     ascii '' (Outgoing Request) ----------'' @ [10]"

definition request_line :: "pystr \<Rightarrow> pystr \<Rightarrow> pystr" where \<comment> \<open>line 28\<close>
  "request_line method_upper url = ascii ''> '' @ method_upper @ ascii '' '' @ url @ ascii '' HTTP/1.1''"

definition title_body_raw :: pystr where \<comment> \<open>line 41\<close>
  "title_body_raw = [10] @ ascii ''> Body (Form Data/Raw Text):''"

definition title_body_json :: pystr where \<comment> \<open>line 44\<close>
  "title_body_json = [10] @ ascii ''> Body (JSON):''"

definition separator :: pystr where \<comment> \<open>line 47\<close>
  "separator = [10] @ ascii ''------------------------------------------------------'' @ [10]"

definition sending_line :: "pystr \<Rightarrow> pystr \<Rightarrow> pystr" where \<comment> \<open>line 49\<close>
  "sending_line method_upper url =
     [128640] @ ascii '' '' @ [27491, 22312, 21457, 36865] @ ascii '' '' @ method_upper @
     ascii '' '' @ [35831, 27714, 21040] @ ascii '': '' @ url @ ascii '' ...''"

definition banner_response :: pystr where \<comment> \<open>line 66\<close>
  "banner_response =
     ascii ''---------- '' @ [9989] @ ascii '' '' @ [24471, 21040, 21709, 24212] @
     ascii '' (Server Response) ----------'' @ [10]"

definition status_line :: "pystr \<Rightarrow> pystr \<Rightarrow> pystr \<Rightarrow> pystr" where \<comment> \<open>line 69\<close>
  "status_line version code phrase =
     [128279] @ ascii '' '' @ [29366, 24577] @ ascii '': HTTP/'' @ version @ ascii '' '' @
     code @ ascii '' '' @ phrase"

definition title_headers :: pystr where \<comment> \<open>line 72\<close>
  "title_headers = [10, 128203] @ ascii '' '' @ [21709, 24212, 22836] @ ascii '' (Headers):''"

definition title_body :: pystr where \<comment> \<open>line 76\<close>
  "title_body = [10, 128230] @ ascii '' '' @ [21709, 24212, 20307] @ ascii '' (Body):''"

definition no_body :: pystr where \<comment> \<open>line 85: the placeholder for an empty body\<close>
  "no_body = ascii ''('' @ [26080, 21709, 24212, 20307] @ ascii '')''"

definition http_error_line :: "pystr \<Rightarrow> pystr" where \<comment> \<open>line 88\<close>
  "http_error_line e = [10060] @ ascii '' HTTP '' @ [38169, 35823] @ ascii '': '' @ e"

definition error_body_line :: "pystr \<Rightarrow> pystr" where \<comment> \<open>line 90\<close>
  "error_body_line body = ascii ''   '' @ [21709, 24212, 20869, 23481] @ ascii '': '' @ body"

definition request_failed_line :: "pystr \<Rightarrow> pystr" where \<comment> \<open>line 92\<close>
  "request_failed_line e =
     [10060] @ ascii '' '' @ [35831, 27714, 22833, 36133, 65292, 35831, 26816, 26597] @
     ascii ''URL'' @ [25110, 32593, 32476, 36830, 25509] @ ascii '': '' @ e"

definition unknown_error_line :: "pystr \<Rightarrow> pystr" where \<comment> \<open>line 94\<close>
  "unknown_error_line e =
     [10060] @ ascii '' '' @ [21457, 29983, 26410, 30693, 38169, 35823] @ ascii '': '' @ e"


subsection \<open>The preview (lines 26 to 49)\<close>

text \<open>
  Lines 31 to 33: \<open>final_headers = headers.copy() if headers else {}\<close>, a new dictionary,
  then the assignment of \<open>Content-Type\<close> when \<open>json_data\<close> is true. The result is the
  address of the new dictionary.
\<close>

definition final_headers :: "nat option \<Rightarrow> json \<Rightarrow> state \<Rightarrow> nat \<times> state" where
  "final_headers headers json_data s =
     (case (case headers of
              None \<Rightarrow> alloc [] s
            | Some a \<Rightarrow> if heap s ! a \<noteq> [] then alloc (heap s ! a) s else alloc [] s) of
        (fh, s1) \<Rightarrow>
          if truthy json_data
          then (fh, setitem fh (ascii ''Content-Type'') (ascii ''application/json'') s1)
          else (fh, s1))"

text \<open>
  Lines 40 to 45: the body of the preview. In line 45 the title is already printed when
  \<open>json.dumps\<close> is evaluated.
\<close>

definition preview_body :: "env \<Rightarrow> pystr option \<Rightarrow> json \<Rightarrow> cmd" where
  "preview_body E data json_data =
     (case (if truthy_str data then data else None) of
        Some raw \<Rightarrow> block [print E title_body_raw, print E raw]
      | None \<Rightarrow>
          if truthy json_data
          then block [print E title_body_json, print_value E (dumps_indented E json_data)]
          else block [])"

text \<open>Lines 35 to 47, once \<open>final_headers\<close> is the dictionary at address \<open>fh\<close>.\<close>

definition preview_rest :: "env \<Rightarrow> nat \<Rightarrow> pystr option \<Rightarrow> json \<Rightarrow> cmd" where
  "preview_rest E fh data json_data s =
     block [print E (ascii ''> Headers:''),
            print_items E (ascii ''>   '') (heap s ! fh),
            preview_body E data json_data,
            print E separator] s"

text \<open>Lines 26 to 49. All of it stands before \<open>try\<close>.\<close>

definition preview ::
  "env \<Rightarrow> pystr \<Rightarrow> pystr \<Rightarrow> nat option \<Rightarrow> pystr option \<Rightarrow> json \<Rightarrow> bool \<Rightarrow> cmd" where
  "preview E method url headers data json_data verbose s =
     (if verbose then
        (case block [print E banner_request,
                     print E (request_line (str_upper E method) url)] s of
           (Some e, s1) \<Rightarrow> (Some e, s1)
         | (None, s1) \<Rightarrow>
             (case final_headers headers json_data s1 of
                (fh, s2) \<Rightarrow> preview_rest E fh data json_data s2))
      else print E (sending_line (str_upper E method) url) s)"

subsection \<open>The request and the rendering of the response (lines 55 to 85)\<close>

text \<open>
  \<open>response.raw.version / 10.0\<close> inside the f-string of line 69: the \<open>int\<close> is converted to
  a float, divided, and the quotient is printed by \<open>repr\<close>. Both steps can raise.
\<close>

fun repr_quotient :: "pyfloat option \<Rightarrow> exn + pystr" where
  "repr_quotient None = Inl (OtherException (ascii ''float division by zero''))"
| "repr_quotient (Some y) = Inr (float_repr y)"

fun divide_by_10 :: "pyfloat option \<Rightarrow> exn + pystr" where
  "divide_by_10 None = Inl (OtherException (ascii ''int too large to convert to float''))"
| "divide_by_10 (Some x) = repr_quotient (float_truediv x float_10)"

definition version_text :: "int \<Rightarrow> exn + pystr" where
  "version_text v = divide_by_10 (float_of_int v)"

text \<open>The f-string of line 69.\<close>

definition status_text :: "response \<Rightarrow> exn + pystr" where
  "status_text r =
     (case version_text (raw_version r) of
        Inl e \<Rightarrow> Inl e
      | Inr version \<Rightarrow> Inr (status_line version (str_int (status_code r)) (reason r)))"

text \<open>
  Lines 77 to 85, the inner \<open>try\<close>: only \<open>json.JSONDecodeError\<close> is caught there. Any other
  exception of \<open>response.json()\<close>, of \<open>json.dumps\<close> or of a \<open>print\<close> leaves the block.
\<close>

definition render_json :: "env \<Rightarrow> response \<Rightarrow> cmd" where
  "render_json E r =
     (case resp_json r of
        Parsed response_json \<Rightarrow> print_value E (dumps_indented E response_json)
      | JSONDecodeError \<Rightarrow> if resp_text r \<noteq> [] then print E (resp_text r) else print E no_body
      | JsonRaises msg \<Rightarrow> print_value E (Inl (OtherException msg)))"

text \<open>Lines 76 to 85: the body of the response.\<close>

definition render_body :: "env \<Rightarrow> response \<Rightarrow> cmd" where
  "render_body E r = block [print E title_body, render_json E r]"

text \<open>Lines 66 to 85.\<close>

definition render_response :: "env \<Rightarrow> response \<Rightarrow> cmd" where
  "render_response E r =
     block [print E banner_response,
            print_value E (status_text r),
            print E title_headers,
            print_items E (ascii ''  '') (resp_headers r),
            render_body E r]"

text \<open>
  Lines 55 to 85, the body of \<open>try\<close>: one call of \<open>requests.request\<close> with the caller's
  \<open>headers\<close> and a timeout of 10, then \<open>raise_for_status\<close>, then the rendering.
\<close>

definition request_of ::
  "pystr \<Rightarrow> pystr \<Rightarrow> nat option \<Rightarrow> pystr option \<Rightarrow> json \<Rightarrow> state \<Rightarrow> request" where
  "request_of method url headers data json_data s =
     \<lparr>req_method = method, req_url = url,
      req_headers = map_option (\<lambda>a. heap s ! a) headers,
      req_data = data, req_json = json_data, req_timeout = 10\<rparr>"

definition try_block ::
  "env \<Rightarrow> pystr \<Rightarrow> pystr \<Rightarrow> nat option \<Rightarrow> pystr option \<Rightarrow> json \<Rightarrow> cmd" where
  "try_block E method url headers data json_data s =
     (let req = request_of method url headers data json_data s;
          s1 = s\<lparr>sent := sent s @ [req]\<rparr>
      in case transport E req of
           Inl e \<Rightarrow> (Some e, s1)
         | Inr r \<Rightarrow>
             (case raise_for_status r of
                Some e \<Rightarrow> (Some e, s1)
              | None \<Rightarrow> render_response E r s1))"

subsection \<open>The except clauses (lines 87 to 94)\<close>

text \<open>
  The first clause that matches handles the exception; \<open>if e.response:\<close> tests the truth
  value of the response. An exception raised by a \<open>print\<close> of a clause is not handled by
  the clauses after it: it leaves \<open>make_request\<close>.
\<close>

fun except_clauses :: "env \<Rightarrow> exn \<Rightarrow> cmd" where
  "except_clauses E (HTTPError e resp) =
     block [print E (http_error_line e),
            (case resp of
               None \<Rightarrow> block []
             | Some r \<Rightarrow>
                 if response_bool r then print E (error_body_line (resp_text r)) else block [])]"
| "except_clauses E (RequestException e) = print E (request_failed_line e)"
| "except_clauses E (OtherException e) = print E (unknown_error_line e)"

text \<open>
  \<open>make_request\<close>. The first component of the result is the exception that leaves the
  function, \<open>None\<close> when it returns.
\<close>

definition make_request ::
  "env \<Rightarrow> pystr \<Rightarrow> pystr \<Rightarrow> nat option \<Rightarrow> pystr option \<Rightarrow> json \<Rightarrow> bool \<Rightarrow> cmd" where
  "make_request E method url headers data json_data verbose s =
     (case preview E method url headers data json_data verbose s of
        (Some e, s1) \<Rightarrow> (Some e, s1)
      | (None, s1) \<Rightarrow>
          (case try_block E method url headers data json_data s1 of
             (None, s2) \<Rightarrow> (None, s2)
           | (Some e, s2) \<Rightarrow> except_clauses E e s2))"

section \<open>main\<close>

text \<open>
  The parsed command line (\<open>args\<close>): \<open>header\<close> is \<open>None\<close> or the list of the \<open>-H\<close> values,
  \<open>data\<close>, \<open>json_data\<close> and \<open>file\<close> are \<open>None\<close> or the value of the option.
\<close>

record args =
  arg_method :: pystr
  arg_url :: pystr
  arg_header :: "pystr list option"
  arg_data :: "pystr option"
  arg_json_data :: "pystr option"
  arg_file :: "pystr option"
  arg_verbose :: bool

text \<open>
  How the process ends: \<open>main\<close> returns (exit code 0), \<open>sys.exit(n)\<close>, or an exception
  that nothing catches (a traceback and exit code 1).
\<close>

datatype outcome = Returned | SysExit nat | Uncaught exn

fun exit_code :: "outcome \<Rightarrow> nat" where
  "exit_code Returned = 0"
| "exit_code (SysExit n) = n"
| "exit_code (Uncaught e) = 1"

definition header_warning :: "pystr \<Rightarrow> pystr" where \<comment> \<open>line 138\<close>
  "header_warning header =
     [9888, 65039] @ ascii '' '' @ [26080, 25928, 30340, 22836, 26684, 24335] @ ascii '': '' @
     [39] @ header @ [39, 12290, 24050, 24573, 30053, 12290]"

definition invalid_json_arg :: pystr where \<comment> \<open>line 147\<close>
  "invalid_json_arg =
     [10060] @ ascii '' '' @ [38169, 35823] @ ascii '': --json_data '' @
     [25552, 20379, 30340, 20869, 23481, 19981, 26159, 26377, 25928, 30340] @ ascii ''JSON'' @
     [26684, 24335, 12290]"

definition file_not_found :: "pystr \<Rightarrow> pystr" where \<comment> \<open>line 154\<close>
  "file_not_found path =
     [10060] @ ascii '' '' @ [38169, 35823] @ ascii '': '' @ [25991, 20214, 26410, 25214, 21040] @
     ascii '' '' @ [39] @ path @ [39, 12290]"

definition invalid_json_file :: "pystr \<Rightarrow> pystr" where \<comment> \<open>line 157\<close>
  "invalid_json_file path =
     [10060] @ ascii '' '' @ [38169, 35823] @ ascii '': '' @ [25991, 20214] @ ascii '' '' @
     [39] @ path @ [39] @ ascii '' '' @
     [30340, 20869, 23481, 19981, 26159, 26377, 25928, 30340] @ ascii ''JSON'' @
     [26684, 24335, 12290]"

text \<open>
  Lines 134 to 138, the body of the loop over the header arguments: the unpacking of
  \<open>header.split(":", 1)\<close> raises \<open>ValueError\<close> when there is no colon, and the token is
  reported and skipped. An exception of that \<open>print\<close> is not caught.
\<close>

definition add_header :: "env \<Rightarrow> nat \<Rightarrow> pystr \<Rightarrow> cmd" where
  "add_header E headers header s =
     (case unpack2 (split1 58 header) of
        Some (key, value) \<Rightarrow> (None, setitem headers (strip key) (strip value) s)
      | None \<Rightarrow> print E (header_warning header) s)"

text \<open>Lines 132 to 138.\<close>

definition parse_headers :: "env \<Rightarrow> nat \<Rightarrow> pystr list option \<Rightarrow> cmd" where
  "parse_headers E headers header =
     (case header of
        None \<Rightarrow> block []
      | Some tokens \<Rightarrow> if tokens \<noteq> [] then block (map (add_header E headers) tokens) else block [])"

text \<open>
  The \<open>print\<close> and \<open>sys.exit(1)\<close> of lines 147 and 148, 154 and 155, 157 and 158, inside an
  \<open>except\<close> clause: an exception of the \<open>print\<close> is not caught.
\<close>

definition report_and_exit :: "env \<Rightarrow> pystr \<Rightarrow> state \<Rightarrow> (outcome + json) \<times> state" where
  "report_and_exit E message s =
     (case print E message s of
        (None, s') \<Rightarrow> (Inl (SysExit 1), s')
      | (Some e, s') \<Rightarrow> (Inl (Uncaught e), s'))"

text \<open>
  Lines 143 to 148 and 150 to 158: parsing the text of the body. Only
  \<open>json.JSONDecodeError\<close> is caught.
\<close>

definition loads_or_exit :: "env \<Rightarrow> pystr \<Rightarrow> pystr \<Rightarrow> state \<Rightarrow> (outcome + json) \<times> state" where
  "loads_or_exit E text message s =
     (case json_loads E text of
        Parsed json_body \<Rightarrow> (Inr json_body, s)
      | JSONDecodeError \<Rightarrow> report_and_exit E message s
      | JsonRaises msg \<Rightarrow> (Inl (Uncaught (OtherException msg)), s))"

text \<open>
  Lines 140 to 158: the JSON body, or how the process ends before any request. Both
  \<open>if args.json_data:\<close> and \<open>elif args.file:\<close> test the truth value of the option.
\<close>

definition read_body :: "env \<Rightarrow> pystr option \<Rightarrow> pystr option \<Rightarrow> state \<Rightarrow> (outcome + json) \<times> state" where
  "read_body E json_data file s =
     (case (if truthy_str json_data then json_data else None) of
        Some text \<Rightarrow> loads_or_exit E text invalid_json_arg s
      | None \<Rightarrow>
          (case (if truthy_str file then file else None) of
             Some path \<Rightarrow>
               (case open_read E path of
                  FileNotFoundError \<Rightarrow> report_and_exit E (file_not_found path) s
                | OtherFileError msg \<Rightarrow> (Inl (Uncaught (OtherException msg)), s)
                | FileText text \<Rightarrow> loads_or_exit E text (invalid_json_file path) s)
           | None \<Rightarrow> (Inr JNull, s)))"

text \<open>\<open>main\<close>, from the parsed arguments on (lines 131 to 165), in a fresh process.\<close>

definition main :: "env \<Rightarrow> args \<Rightarrow> outcome \<times> state" where
  "main E a =
     (case alloc [] init_state of
        (headers, s0) \<Rightarrow>
          (case parse_headers E headers (arg_header a) s0 of
             (Some e, s1) \<Rightarrow> (Uncaught e, s1)
           | (None, s1) \<Rightarrow>
               (case read_body E (arg_json_data a) (arg_file a) s1 of
                  (Inl out, s2) \<Rightarrow> (out, s2)
                | (Inr json_body, s2) \<Rightarrow>
                    (case make_request E (arg_method a) (arg_url a) (Some headers) (arg_data a)
                            json_body (arg_verbose a) s2 of
                       (None, s3) \<Rightarrow> (Returned, s3)
                     | (Some e, s3) \<Rightarrow> (Uncaught e, s3)))))"

section \<open>Example collaborators\<close>

text \<open>
  A mocked environment for example runs: the transport answers every request with a
  given result (a mocked failure is one before any response), \<open>json.loads\<close> and
  \<open>json.dumps\<close> are tables of the few texts and values the examples use, \<open>str.upper\<close> is
  given for ASCII letters, there is one file and one directory, and standard output is a
  UTF-8 stream.
\<close>

definition ascii_upper :: "pystr \<Rightarrow> pystr" where
  "ascii_upper s = map (\<lambda>c. if 97 \<le> c \<and> c \<le> 122 then c - 32 else c) s"

definition example_loads :: "pystr \<Rightarrow> json_result" where
  "example_loads s =
     (if s = ascii ''{\"name\":\"x\"}'' then Parsed (JDict [(ascii ''name'', JStr (ascii ''x''))])
      else if s = ascii ''{\"a\":1}'' then Parsed (JDict [(ascii ''a'', JInt 1)])
      else if s = ascii ''{}'' then Parsed (JDict [])
      else if s = [34, 92, 117, 100, 56, 51, 100, 34] then Parsed (JStr [55357])
      else JSONDecodeError)"

definition example_dumps :: "nat \<Rightarrow> bool \<Rightarrow> json \<Rightarrow> pystr raising" where
  "example_dumps indent ensure_ascii v =
     (if v = JDict [(ascii ''ok'', JBool True)]
      then Returns (ascii ''{'' @ [10] @ replicate indent 32 @ ascii ''\"ok\": true'' @ [10] @ ascii ''}'')
      else if v = JDict [(ascii ''a'', JInt 1)]
      then Returns (ascii ''{'' @ [10] @ replicate indent 32 @ ascii ''\"a\": 1'' @ [10] @ ascii ''}'')
      else if v = JDict [(ascii ''name'', JStr (ascii ''x''))]
      then Returns (ascii ''{'' @ [10] @ replicate indent 32 @ ascii ''\"name\": \"x\"'' @ [10] @
                    ascii ''}'')
      else if v = JStr [55357] \<and> \<not> ensure_ascii then Returns [34, 55357, 34]
      else Returns (ascii ''{}''))"

definition example_files :: "pystr \<Rightarrow> file_result" where
  "example_files path =
     (if path = ascii ''body.json'' then FileText (ascii ''{\"a\":1}'')
      else if path = ascii ''broken.json'' then FileText (ascii ''{\"a\":'')
      else if path = ascii ''/tmp''
      then OtherFileError (ascii ''[Errno 21] Is a directory: '' @ [39] @ ascii ''/tmp'' @ [39])
      else FileNotFoundError)"

text \<open>
  The encoder of a UTF-8 stream: every code point but a surrogate can be written; the
  message is the one of CPython's \<open>UnicodeEncodeError\<close> for the first run of surrogates.
\<close>

definition is_surrogate :: "nat \<Rightarrow> bool" where
  "is_surrogate c \<longleftrightarrow> 55296 \<le> c \<and> c \<le> 57343"

definition hex_digit :: "nat \<Rightarrow> nat" where
  "hex_digit n = (if n < 10 then 48 + n else 87 + n)"

definition hex4 :: "nat \<Rightarrow> pystr" where
  "hex4 c = map hex_digit [c div 4096, c div 256 mod 16, c div 16 mod 16, c mod 16]"

fun surrogate_message :: "nat \<Rightarrow> pystr \<Rightarrow> pystr option" where
  "surrogate_message i [] = None"
| "surrogate_message i [c] =
     Some ([39] @ ascii ''utf-8'' @ [39] @ ascii '' codec can'' @ [39] @
           ascii ''t encode character '' @ [39, 92, 117] @ hex4 c @ [39] @
           ascii '' in position '' @ digits (int i) @ ascii '': surrogates not allowed'')"
| "surrogate_message i (c # c' # cs) =
     Some ([39] @ ascii ''utf-8'' @ [39] @ ascii '' codec can'' @ [39] @
           ascii ''t encode characters in position '' @ digits (int i) @ ascii ''-'' @
           digits (int (i + length cs + 1)) @ ascii '': surrogates not allowed'')"

definition utf8_print_error :: "pystr \<Rightarrow> pystr option" where
  "utf8_print_error l =
     surrogate_message (length (takeWhile (\<lambda>c. \<not> is_surrogate c) l))
       (takeWhile is_surrogate (dropWhile (\<lambda>c. \<not> is_surrogate c) l))"

fun is_response :: "exn + response \<Rightarrow> bool" where
  "is_response (Inl e) = False"
| "is_response (Inr r) = True"

definition example_env :: "(exn + response) \<Rightarrow> env" where
  "example_env answer =
     \<lparr>transport = (\<lambda>req. answer), response_received = (\<lambda>req. is_response answer),
      json_loads = example_loads, json_dumps = example_dumps,
      str_upper = ascii_upper, open_read = example_files, print_error = utf8_print_error\<rparr>"

definition response_200 :: response where
  "response_200 =
     \<lparr>raw_version = 11, status_code = 200, reason = ascii ''OK'',
      resp_url = ascii ''http://example.com/ping'',
      resp_headers = [(ascii ''Content-Type'', ascii ''application/json'')],
      resp_text = ascii ''{\"ok\":true}'',
      resp_json = Parsed (JDict [(ascii ''ok'', JBool True)])\<rparr>"

definition response_text :: response where
  "response_text =
     \<lparr>raw_version = 10, status_code = 200, reason = ascii ''OK'',
      resp_url = ascii ''http://example.com/ping'',
      resp_headers = [(ascii ''Content-Type'', ascii ''text/plain'')],
      resp_text = ascii ''pong'', resp_json = JSONDecodeError\<rparr>"

definition response_204 :: response where
  "response_204 =
     \<lparr>raw_version = 11, status_code = 204, reason = ascii ''No Content'',
      resp_url = ascii ''http://example.com/ping'', resp_headers = [],
      resp_text = [], resp_json = JSONDecodeError\<rparr>"

definition response_404 :: response where
  "response_404 =
     \<lparr>raw_version = 11, status_code = 404, reason = ascii ''Not Found'',
      resp_url = ascii ''http://example.com/items'',
      resp_headers = [(ascii ''Content-Type'', ascii ''application/json'')],
      resp_text = ascii ''{\"error\":\"missing\"}'',
      resp_json = Parsed (JDict [(ascii ''error'', JStr (ascii ''missing''))])\<rparr>"

text \<open>
  A successful response whose body is 100000 opening brackets: \<open>response.json()\<close> raises
  \<open>RecursionError\<close>, which is not a \<open>JSONDecodeError\<close>.
\<close>

definition response_deep :: response where
  "response_deep =
     \<lparr>raw_version = 11, status_code = 200, reason = ascii ''OK'',
      resp_url = ascii ''http://example.com/ping'', resp_headers = [],
      resp_text = replicate 100000 91,
      resp_json = JsonRaises (ascii ''maximum recursion depth exceeded while decoding a JSON array from a unicode string'')\<rparr>"

text \<open>The arguments of \<open>GET http://example.com/ping\<close> with no option.\<close>

definition example_args :: args where
  "example_args =
     \<lparr>arg_method = ascii ''GET'', arg_url = ascii ''http://example.com/ping'',
      arg_header = None, arg_data = None, arg_json_data = None, arg_file = None,
      arg_verbose = False\<rparr>"

section \<open>Notions used in the statements\<close>

text \<open>Standard output can encode each of the strings.\<close>

definition can_print :: "env \<Rightarrow> pystr list \<Rightarrow> bool" where
  "can_print E ls \<longleftrightarrow> list_all (\<lambda>l. print_error E l = None) ls"

text \<open>The first line that the \<open>except\<close> clause of an exception prints.\<close>

fun outcome_line :: "exn \<Rightarrow> pystr" where
  "outcome_line (HTTPError e resp) = http_error_line e"
| "outcome_line (RequestException e) = request_failed_line e"
| "outcome_line (OtherException e) = unknown_error_line e"

text \<open>
  The body block as the specification words it: pretty-printed when the body parses as
  JSON, else the raw text when there is any, else the placeholder.
\<close>

definition claimed_body :: "env \<Rightarrow> response \<Rightarrow> exn + pystr" where
  "claimed_body E r =
     (case resp_json r of
        Parsed v \<Rightarrow> dumps_indented E v
      | JSONDecodeError \<Rightarrow> Inr (if resp_text r \<noteq> [] then resp_text r else no_body)
      | JsonRaises msg \<Rightarrow> Inr (if resp_text r \<noteq> [] then resp_text r else no_body))"

text \<open>The dictionary that the loop of lines 36 and 37 prints.\<close>

definition displayed_headers :: "nat option \<Rightarrow> json \<Rightarrow> state \<Rightarrow> pydict" where
  "displayed_headers headers json_data s =
     (case final_headers headers json_data s of (fh, s') \<Rightarrow> heap s' ! fh)"

text \<open>The contents of the caller's \<open>headers\<close>.\<close>

definition user_headers :: "nat option \<Rightarrow> state \<Rightarrow> pydict" where
  "user_headers headers s = (case headers of None \<Rightarrow> [] | Some a \<Rightarrow> heap s ! a)"

text \<open>
  The displayed headers as the specification words them: the user's headers without any
  \<open>Content-Type\<close> of their own and, when there is a JSON body, the injected entry last.
\<close>

definition claimed_headers :: "pydict \<Rightarrow> json \<Rightarrow> pydict" where
  "claimed_headers user json_data =
     (if json_data \<noteq> JNull
      then filter (\<lambda>kv. fst kv \<noteq> ascii ''Content-Type'') user @
           [(ascii ''Content-Type'', ascii ''application/json'')]
      else user)"

text \<open>
  A header token with a colon, split at its first colon, both sides stripped; the entries
  of the tokens that have a colon, in the order of the tokens.
\<close>

definition has_colon :: "pystr \<Rightarrow> bool" where
  "has_colon t \<longleftrightarrow> 58 \<in> set t"

definition header_entry :: "pystr \<Rightarrow> pystr \<times> pystr" where
  "header_entry t =
     (strip (takeWhile (\<lambda>c. c \<noteq> 58) t), strip (drop 1 (dropWhile (\<lambda>c. c \<noteq> 58) t)))"

definition header_entries :: "pystr list \<Rightarrow> pydict" where
  "header_entries tokens = map header_entry (filter has_colon tokens)"

text \<open>The assignments \<open>d[k] = v\<close> of a list of entries, one after the other.\<close>

definition assign_all :: "pydict \<Rightarrow> pydict \<Rightarrow> pydict" where
  "assign_all d entries = foldl (\<lambda>d' kv. dict_set d' (fst kv) (snd kv)) d entries"

text \<open>
  The pre-flight failures as the specification words them: the inline text is not JSON,
  the file is missing, or the content of the file is not JSON.
\<close>

fun is_parsed :: "json_result \<Rightarrow> bool" where
  "is_parsed (Parsed v) = True"
| "is_parsed JSONDecodeError = False"
| "is_parsed (JsonRaises msg) = False"

fun file_fails :: "env \<Rightarrow> file_result \<Rightarrow> bool" where
  "file_fails E FileNotFoundError = True"
| "file_fails E (OtherFileError msg) = False"
| "file_fails E (FileText text) = (\<not> is_parsed (json_loads E text))"

definition claimed_preflight_failure :: "env \<Rightarrow> args \<Rightarrow> bool" where
  "claimed_preflight_failure E a \<longleftrightarrow>
     (case arg_json_data a of None \<Rightarrow> False | Some text \<Rightarrow> \<not> is_parsed (json_loads E text)) \<or>
     (case arg_file a of None \<Rightarrow> False | Some path \<Rightarrow> file_fails E (open_read E path))"

text \<open>
  The pre-flight failures of the program: an option counts as given when its value is
  not empty, \<open>-j\<close> goes before \<open>-f\<close>, and the text fails with \<open>json.JSONDecodeError\<close>.
\<close>

definition given :: "pystr option \<Rightarrow> pystr option" where
  "given x = (if truthy_str x then x else None)"

fun file_rejected :: "env \<Rightarrow> file_result \<Rightarrow> bool" where
  "file_rejected E FileNotFoundError = True"
| "file_rejected E (OtherFileError msg) = False"
| "file_rejected E (FileText text) = (json_loads E text = JSONDecodeError)"

definition preflight_failure :: "env \<Rightarrow> args \<Rightarrow> bool" where
  "preflight_failure E a \<longleftrightarrow>
     (case given (arg_json_data a) of
        Some text \<Rightarrow> json_loads E text = JSONDecodeError
      | None \<Rightarrow>
          (case given (arg_file a) of
             Some path \<Rightarrow> file_rejected E (open_read E path)
           | None \<Rightarrow> False))"

text \<open>
  A statement that only prints: it leaves the dictionaries and the calls of the transport
  as they are, and what was printed before it stays printed.
\<close>

definition output_only :: "cmd \<Rightarrow> bool" where
  "output_only c \<longleftrightarrow>
     (\<forall>s. heap (snd (c s)) = heap s \<and> sent (snd (c s)) = sent s \<and>
          (\<exists>out. stdout (snd (c s)) = stdout s @ out))"

section \<open>Basic facts\<close>

lemma print_ok: "print_error E l = None \<Longrightarrow> print E l s = (None, s\<lparr>stdout := stdout s @ [l]\<rparr>)"
  by (simp add: print_def)

lemma print_fail: "print_error E l = Some msg \<Longrightarrow> print E l s = (Some (OtherException msg), s)"
  by (simp add: print_def)

lemma output_onlyI:
  assumes "\<And>s. heap (snd (c s)) = heap s" "\<And>s. sent (snd (c s)) = sent s"
    and "\<And>s. \<exists>out. stdout (snd (c s)) = stdout s @ out"
  shows "output_only c"
  using assms by (simp add: output_only_def)

lemma output_only_heap: "output_only c \<Longrightarrow> heap (snd (c s)) = heap s"
  by (simp add: output_only_def)

lemma output_only_sent: "output_only c \<Longrightarrow> sent (snd (c s)) = sent s"
  by (simp add: output_only_def)

lemma output_only_stdout: "output_only c \<Longrightarrow> \<exists>out. stdout (snd (c s)) = stdout s @ out"
  by (simp add: output_only_def)

lemma output_only_print: "output_only (print E l)"
  by (rule output_onlyI) (simp_all add: print_def split: option.splits)

lemma output_only_raise: "output_only (\<lambda>s. (x, s))"
  by (rule output_onlyI) simp_all

lemma output_only_print_value: "output_only (print_value E x)"
proof (cases x)
  case (Inl e)
  then have "print_value E x = (\<lambda>s. (Some e, s))"
    by (simp add: print_value_def fun_eq_iff)
  then show ?thesis
    by (simp add: output_only_raise)
next
  case (Inr l)
  then have "print_value E x = print E l"
    by (simp add: print_value_def fun_eq_iff)
  then show ?thesis
    by (simp add: output_only_print)
qed

lemma block_frame:
  assumes "\<And>c. c \<in> set cs \<Longrightarrow> output_only c"
  shows "heap (snd (block cs s)) = heap s \<and> sent (snd (block cs s)) = sent s \<and>
         (\<exists>out. stdout (snd (block cs s)) = stdout s @ out)"
  using assms
proof (induction cs arbitrary: s)
  case Nil
  then show ?case by simp
next
  case (Cons c cs)
  have c: "output_only c"
    using Cons.prems by simp
  obtain x s' where cs: "c s = (x, s')"
    by (cases "c s")
  have h: "heap s' = heap s" "sent s' = sent s"
    using output_only_heap [OF c, of s] output_only_sent [OF c, of s] cs by simp_all
  obtain out where o: "stdout s' = stdout s @ out"
    using output_only_stdout [OF c, of s] cs by auto
  show ?case
  proof (cases x)
    case None
    have IH: "heap (snd (block cs s')) = heap s' \<and> sent (snd (block cs s')) = sent s' \<and>
         (\<exists>out. stdout (snd (block cs s')) = stdout s' @ out)"
      using Cons.IH [of s'] Cons.prems by simp
    then obtain out' where o': "stdout (snd (block cs s')) = stdout s' @ out'"
      by auto
    show ?thesis
      using None cs IH h o o' by simp
  next
    case (Some e)
    then show ?thesis
      using cs h o by simp
  qed
qed

lemma output_only_block: "(\<And>c. c \<in> set cs \<Longrightarrow> output_only c) \<Longrightarrow> output_only (block cs)"
  by (rule output_onlyI) (simp_all add: block_frame)

lemma output_only_print_items: "output_only (print_items E p d)"
  unfolding print_items_def
  by (rule output_only_block) (auto simp: output_only_print)

lemma output_only_preview_body: "output_only (preview_body E d j)"
  unfolding preview_body_def
  by (auto split: option.splits intro!: output_only_block
      simp: output_only_print output_only_print_value)

lemma output_only_render_json: "output_only (render_json E r)"
  unfolding render_json_def
  by (auto split: json_result.splits simp: output_only_print output_only_print_value)

lemma output_only_render_body: "output_only (render_body E r)"
  unfolding render_body_def
  by (rule output_only_block) (auto simp: output_only_print output_only_render_json)

lemma output_only_render_response: "output_only (render_response E r)"
  unfolding render_response_def
  by (rule output_only_block)
     (auto simp: output_only_print output_only_print_value output_only_print_items
        output_only_render_body)

lemma output_only_except_clauses: "output_only (except_clauses E e)"
proof (cases e)
  case (HTTPError msg resp)
  have "output_only (case resp of None \<Rightarrow> block []
      | Some r \<Rightarrow> if response_bool r then print E (error_body_line (resp_text r)) else block [])"
    by (auto split: option.splits simp: output_only_print intro!: output_only_block)
  then show ?thesis
    unfolding HTTPError except_clauses.simps
    by (intro output_only_block) (auto simp: output_only_print)
qed (simp_all add: output_only_print)

lemma block_prints:
  "can_print E ls \<Longrightarrow> block (map (print E) ls) s = (None, s\<lparr>stdout := stdout s @ ls\<rparr>)"
  by (induction ls arbitrary: s) (simp_all add: can_print_def print_def)

lemma print_items_ok:
  "can_print E (map (item_line p) d) \<Longrightarrow>
   print_items E p d s = (None, s\<lparr>stdout := stdout s @ map (item_line p) d\<rparr>)"
  using block_prints [of E "map (item_line p) d" s]
  by (simp add: print_items_def comp_def)

lemma block_prints_prefix:
  "\<exists>x n. n \<le> length ls \<and> (x = None \<longrightarrow> n = length ls) \<and>
     block (map (print E) ls) s = (x, s\<lparr>stdout := stdout s @ take n ls\<rparr>)"
proof (induction ls arbitrary: s)
  case Nil
  then show ?case by simp
next
  case (Cons l ls)
  show ?case
  proof (cases "print_error E l")
    case None
    let ?s = "s\<lparr>stdout := stdout s @ [l]\<rparr>"
    obtain x n where n: "n \<le> length ls" "x = None \<longrightarrow> n = length ls"
      and b: "block (map (print E) ls) ?s = (x, ?s\<lparr>stdout := stdout ?s @ take n ls\<rparr>)"
      using Cons.IH [of ?s] by blast
    have "block (map (print E) (l # ls)) s = (x, s\<lparr>stdout := stdout s @ take (Suc n) (l # ls)\<rparr>)"
      using None b by (simp add: print_def)
    moreover have "Suc n \<le> length (l # ls)" "x = None \<longrightarrow> Suc n = length (l # ls)"
      using n by simp_all
    ultimately show ?thesis
      by blast
  next
    case (Some msg)
    then have "block (map (print E) (l # ls)) s =
        (Some (OtherException msg), s\<lparr>stdout := stdout s @ take 0 (l # ls)\<rparr>)"
      by (simp add: print_def)
    then show ?thesis
      by blast
  qed
qed

lemma block_flatten: "block (block cs # ds) s = block (cs @ ds) s"
proof (induction cs arbitrary: s)
  case Nil
  then show ?case by simp
next
  case (Cons c cs)
  show ?case
  proof (cases "c s")
    case (Pair x s')
    then show ?thesis
      using Cons.IH [of s'] by (cases x) simp_all
  qed
qed

lemma final_headers_result:
  "final_headers h j s =
     (length (heap s),
      s\<lparr>heap := heap s @ [if truthy j
          then dict_set (user_headers h s) (ascii ''Content-Type'') (ascii ''application/json'')
          else user_headers h s]\<rparr>)"
  by (cases h) (simp_all add: final_headers_def alloc_def setitem_def user_headers_def)

lemma displayed_headers_eq:
  "displayed_headers h j s =
     (if truthy j
      then dict_set (user_headers h s) (ascii ''Content-Type'') (ascii ''application/json'')
      else user_headers h s)"
  by (simp add: displayed_headers_def final_headers_result)

lemma final_headers_displayed:
  "final_headers h j s = (length (heap s), s\<lparr>heap := heap s @ [displayed_headers h j s]\<rparr>)"
  by (simp add: final_headers_result displayed_headers_eq)

lemma preview_rest_frame:
  "heap (snd (preview_rest E fh d j s)) = heap s \<and> sent (snd (preview_rest E fh d j s)) = sent s \<and>
   (\<exists>out. stdout (snd (preview_rest E fh d j s)) = stdout s @ out)"
  unfolding preview_rest_def
  by (rule block_frame)
     (auto simp: output_only_print output_only_print_items output_only_preview_body)

lemma preview_frame:
  "sent (snd (preview E m u h d j v s)) = sent s \<and>
   (\<exists>ds. heap (snd (preview E m u h d j v s)) = heap s @ ds) \<and>
   (\<exists>out. stdout (snd (preview E m u h d j v s)) = stdout s @ out)"
proof (cases v)
  case False
  then have "preview E m u h d j v s = print E (sending_line (str_upper E m) u) s"
    by (simp add: preview_def)
  then show ?thesis
    using output_only_print [of E "sending_line (str_upper E m) u"]
    by (simp add: output_only_def)
next
  case True
  let ?b = "block [print E banner_request, print E (request_line (str_upper E m) u)]"
  have b: "heap (snd (?b s)) = heap s \<and> sent (snd (?b s)) = sent s \<and>
      (\<exists>out. stdout (snd (?b s)) = stdout s @ out)"
    by (rule block_frame) (auto simp: output_only_print)
  obtain x s1 where bs: "?b s = (x, s1)"
    by (cases "?b s")
  obtain out where s1: "heap s1 = heap s" "sent s1 = sent s" "stdout s1 = stdout s @ out"
    using b bs by auto
  show ?thesis
  proof (cases x)
    case (Some e)
    then have "preview E m u h d j v s = (Some e, s1)"
      using True bs by (simp add: preview_def)
    then show ?thesis
      using s1 by simp
  next
    case None
    let ?s2 = "s1\<lparr>heap := heap s1 @ [displayed_headers h j s1]\<rparr>"
    have p: "preview E m u h d j v s = preview_rest E (length (heap s1)) d j ?s2"
      using True bs None by (simp add: preview_def final_headers_displayed)
    obtain out' where "stdout (snd (preview_rest E (length (heap s1)) d j ?s2)) = stdout ?s2 @ out'"
      using preview_rest_frame [of E "length (heap s1)" d j ?s2] by blast
    then show ?thesis
      using p preview_rest_frame [of E "length (heap s1)" d j ?s2] s1 by simp
  qed
qed

lemma try_block_frame:
  "heap (snd (try_block E m u h d j s)) = heap s \<and>
   sent (snd (try_block E m u h d j s)) = sent s @ [request_of m u h d j s] \<and>
   (\<exists>out. stdout (snd (try_block E m u h d j s)) = stdout s @ out)"
proof -
  let ?s1 = "s\<lparr>sent := sent s @ [request_of m u h d j s]\<rparr>"
  have r: "heap (snd (render_response E r ?s1)) = heap s \<and>
      sent (snd (render_response E r ?s1)) = sent s @ [request_of m u h d j s] \<and>
      (\<exists>out. stdout (snd (render_response E r ?s1)) = stdout s @ out)" for r
    using output_only_heap [OF output_only_render_response, of E r ?s1]
      output_only_sent [OF output_only_render_response, of E r ?s1]
      output_only_stdout [OF output_only_render_response, of E r ?s1]
    by simp
  show ?thesis
    using r by (auto simp: try_block_def Let_def split: sum.splits option.splits)
qed

lemma request_of_extended:
  assumes "\<forall>a. h = Some a \<longrightarrow> a < length (heap s)" and "heap s' = heap s @ ds"
  shows "request_of m u h d j s' = request_of m u h d j s"
  using assms by (cases h) (simp_all add: request_of_def nth_append)

lemma make_request_after_preview:
  assumes "preview E m u h d j v s = (None, s1)"
  shows "make_request E m u h d j v s =
     (case try_block E m u h d j s1 of
        (None, s2) \<Rightarrow> (None, s2)
      | (Some e, s2) \<Rightarrow> except_clauses E e s2)"
  using assms by (simp add: make_request_def)

lemma make_request_preview_raises:
  assumes "preview E m u h d j v s = (Some e, s1)"
  shows "make_request E m u h d j v s = (Some e, s1)"
  using assms by (simp add: make_request_def)

lemma handled_frame:
  fixes E m u h d j s1
  defines "res \<equiv> (case try_block E m u h d j s1 of
        (None, s2) \<Rightarrow> (None, s2)
      | (Some e, s2) \<Rightarrow> except_clauses E e s2)"
  shows "heap (snd res) = heap s1 \<and> sent (snd res) = sent s1 @ [request_of m u h d j s1] \<and>
     (\<exists>out. stdout (snd res) = stdout s1 @ out)"
proof -
  obtain x s2 where t: "try_block E m u h d j s1 = (x, s2)"
    by (cases "try_block E m u h d j s1")
  obtain out where s2: "heap s2 = heap s1" "sent s2 = sent s1 @ [request_of m u h d j s1]"
    "stdout s2 = stdout s1 @ out"
    using try_block_frame [of E m u h d j s1] t by auto
  show ?thesis
  proof (cases x)
    case None
    then show ?thesis
      using t s2 by (simp add: res_def)
  next
    case (Some e)
    obtain out' where "stdout (snd (except_clauses E e s2)) = stdout s2 @ out'"
      using output_only_stdout [OF output_only_except_clauses, of E e s2] by blast
    then show ?thesis
      using Some t s2 output_only_heap [OF output_only_except_clauses, of E e s2]
        output_only_sent [OF output_only_except_clauses, of E e s2]
      by (simp add: res_def)
  qed
qed

lemma make_request_frame:
  assumes "preview E m u h d j v s = (None, s1)"
  shows "heap (snd (make_request E m u h d j v s)) = heap s1"
    and "sent (snd (make_request E m u h d j v s)) = sent s1 @ [request_of m u h d j s1]"
    and "\<exists>out. stdout (snd (make_request E m u h d j v s)) = stdout s1 @ out"
  using handled_frame [of E m u h d j s1] make_request_after_preview [OF assms]
  by simp_all

lemma make_request_sent:
  assumes "\<forall>a. h = Some a \<longrightarrow> a < length (heap s)"
  shows "sent (snd (make_request E m u h d j v s)) =
     sent s @ (if fst (preview E m u h d j v s) = None then [request_of m u h d j s] else [])"
proof (cases "preview E m u h d j v s")
  case (Pair x s1)
  obtain ds where s1: "sent s1 = sent s" "heap s1 = heap s @ ds"
    using preview_frame [of E m u h d j v s] Pair by auto
  show ?thesis
  proof (cases x)
    case None
    then show ?thesis
      using make_request_frame(2) [of E m u h d j v s s1] Pair s1
        request_of_extended [OF assms s1(2)]
      by simp
  next
    case (Some e)
    then show ?thesis
      using make_request_preview_raises [of E m u h d j v s e s1] Pair s1 by simp
  qed
qed

lemma make_request_heap:
  "take (length (heap s)) (heap (snd (make_request E m u h d j v s))) = heap s"
proof (cases "preview E m u h d j v s")
  case (Pair x s1)
  obtain ds where s1: "heap s1 = heap s @ ds"
    using preview_frame [of E m u h d j v s] Pair by auto
  show ?thesis
  proof (cases x)
    case None
    then show ?thesis
      using make_request_frame(1) [of E m u h d j v s s1] Pair s1 by simp
  next
    case (Some e)
    then show ?thesis
      using make_request_preview_raises [of E m u h d j v s e s1] Pair s1 by simp
  qed
qed

lemma example_env_simps:
  "transport (example_env answer) req = answer"
  "response_received (example_env answer) req = is_response answer"
  "json_loads (example_env answer) = example_loads"
  "json_dumps (example_env answer) = example_dumps"
  "str_upper (example_env answer) = ascii_upper"
  "open_read (example_env answer) = example_files"
  "print_error (example_env answer) = utf8_print_error"
  by (simp_all add: example_env_def)

lemma replicate_2: "replicate 2 x = [x, x]"
  by (simp add: numeral_2_eq_2)

lemma utf8_can_print:
  "list_all (\<lambda>c. \<not> is_surrogate c) l \<Longrightarrow> utf8_print_error l = None"
proof -
  assume a: "list_all (\<lambda>c. \<not> is_surrogate c) l"
  then have d: "dropWhile (\<lambda>c. \<not> is_surrogate c) l = []"
    by (simp add: list_all_iff)
  show ?thesis
    unfolding utf8_print_error_def d by simp
qed

lemmas message_defs = banner_request_def request_line_def title_body_raw_def title_body_json_def
  separator_def sending_line_def banner_response_def status_line_def title_headers_def
  title_body_def no_body_def http_error_line_def error_body_line_def request_failed_line_def
  unknown_error_line_def

lemmas run_defs = make_request_def preview_def preview_rest_def preview_body_def
  final_headers_def alloc_def setitem_def print_items_def item_line_def print_value_def
  dumps_indented_def try_block_def request_of_def render_response_def render_body_def
  render_json_def status_text_def raise_for_status_def response_bool_def print_def
  init_state_def str_int_def digits.simps ascii_upper_def example_env_simps example_dumps_def
  example_loads_def example_files_def utf8_can_print is_surrogate_def replicate_2

lemma block_flatten2: "block (c # block cs # ds) t = block (c # cs @ ds) t"
  unfolding block.simps(2) [of c] block_flatten by (rule refl)

lemma block_skip: "block (xs @ block [] # ys) t = block (xs @ ys) t"
  by (induction xs arbitrary: t) (auto split: prod.splits option.splits)

lemma user_headers_heap: "heap s' = heap s \<Longrightarrow> user_headers h s' = user_headers h s"
  by (cases h) (simp_all add: user_headers_def)

lemma preview_falsy:
  assumes "\<not> truthy j" "\<not> truthy_str d"
  shows "preview E m u h d j True s =
     (case block (map (print E) [banner_request, request_line (str_upper E m) u]) s of
        (Some e, s1) \<Rightarrow> (Some e, s1)
      | (None, s1) \<Rightarrow>
          block (map (print E) ([ascii ''> Headers:''] @
                   map (item_line (ascii ''>   '')) (user_headers h s) @ [separator]))
            (s1\<lparr>heap := heap s1 @ [user_headers h s1]\<rparr>))"
proof -
  let ?b = "block (map (print E) [banner_request, request_line (str_upper E m) u]) s"
  obtain x s1 where b: "?b = (x, s1)"
    by (cases ?b)
  have ob: "output_only (block (map (print E) [banner_request, request_line (str_upper E m) u]))"
    by (rule output_only_block) (auto simp: output_only_print)
  from output_only_heap [OF ob, of s] have h: "heap s1 = heap s"
    unfolding b by simp
  then have uh: "user_headers h s1 = user_headers h s"
    by (rule user_headers_heap)
  have body: "preview_body E d j = block []"
    using assms by (cases d) (simp_all add: preview_body_def fun_eq_iff)
  have rest: "preview_rest E fh d j s' =
      block (map (print E) ([ascii ''> Headers:''] @
        map (item_line (ascii ''>   '')) (heap s' ! fh) @ [separator])) s'" for fh s'
  proof -
    let ?L = "map (item_line (ascii ''>   '')) (heap s' ! fh)"
    have "preview_rest E fh d j s' =
        block (print E (ascii ''> Headers:'') # block (map (print E) ?L) #
               [block [], print E separator]) s'"
      by (simp add: preview_rest_def body print_items_def comp_def)
    also have "\<dots> = block ((print E (ascii ''> Headers:'') # map (print E) ?L) @
        block [] # [print E separator]) s'"
      unfolding block_flatten2 by simp
    also have "\<dots> = block ((print E (ascii ''> Headers:'') # map (print E) ?L) @
        [print E separator]) s'"
      by (rule block_skip)
    finally show ?thesis
      by simp
  qed
  show ?thesis
  proof (cases x)
    case (Some e)
    then show ?thesis
      using b by (simp add: preview_def)
  next
    case None
    let ?s2 = "s1\<lparr>heap := heap s1 @ [user_headers h s1]\<rparr>"
    have "preview E m u h d j True s = preview_rest E (length (heap s1)) d j ?s2"
      using b None assms by (simp add: preview_def final_headers_result)
    also have "\<dots> = block (map (print E) ([ascii ''> Headers:''] @
        map (item_line (ascii ''>   '')) (user_headers h s1) @ [separator])) ?s2"
      unfolding rest by simp
    finally show ?thesis
      unfolding b None by (simp add: uh)
  qed
qed

lemma preview_falsy_ok:
  assumes "\<not> truthy j" "\<not> truthy_str d"
    and "can_print E ([banner_request, request_line (str_upper E m) u, ascii ''> Headers:''] @
           map (item_line (ascii ''>   '')) (user_headers h s) @ [separator])"
  shows "preview E m u h d j True s =
     (None, s\<lparr>heap := heap s @ [user_headers h s],
              stdout := stdout s @
                [banner_request, request_line (str_upper E m) u, ascii ''> Headers:''] @
                map (item_line (ascii ''>   '')) (user_headers h s) @ [separator]\<rparr>)"
proof -
  have 1: "can_print E [banner_request, request_line (str_upper E m) u]"
    and 2: "can_print E ([ascii ''> Headers:''] @
        map (item_line (ascii ''>   '')) (user_headers h s) @ [separator])"
    using assms(3) by (simp_all add: can_print_def)
  have u: "user_headers h (s\<lparr>stdout := x\<rparr>) = user_headers h s" for x
    by (cases h) (simp_all add: user_headers_def)
  show ?thesis
    unfolding preview_falsy [OF assms(1,2)] block_prints [OF 1]
    using block_prints [OF 2, of "s\<lparr>stdout := stdout s @
        [banner_request, request_line (str_upper E m) u], heap := heap s @ [user_headers h s]\<rparr>"]
    by (simp add: u)
qed

lemma preview_falsy_prefix:
  assumes "\<not> truthy j" "\<not> truthy_str d"
  shows "\<exists>n. stdout (snd (preview E m u h d j True s)) =
     stdout s @ take n ([banner_request, request_line (str_upper E m) u, ascii ''> Headers:''] @
                        map (item_line (ascii ''>   '')) (user_headers h s) @ [separator])"
proof -
  let ?l1 = "[banner_request, request_line (str_upper E m) u]"
  let ?l2 = "[ascii ''> Headers:''] @ map (item_line (ascii ''>   '')) (user_headers h s) @
      [separator]"
  obtain x n where n: "n \<le> length ?l1" "x = None \<longrightarrow> n = length ?l1"
    and b: "block (map (print E) ?l1) s = (x, s\<lparr>stdout := stdout s @ take n ?l1\<rparr>)"
    using block_prints_prefix [of ?l1 E s] by blast
  show ?thesis
  proof (cases x)
    case (Some e)
    have "take n ?l1 = take n (?l1 @ ?l2)"
      using n(1) by (simp del: append.simps)
    then have "stdout (snd (preview E m u h d j True s)) = stdout s @ take n (?l1 @ ?l2)"
      unfolding preview_falsy [OF assms] b using Some by simp
    then show ?thesis
      by (intro exI [of _ n]) simp
  next
    case None
    let ?s2 = "s\<lparr>stdout := stdout s @ ?l1\<rparr>\<lparr>heap := heap s @ [user_headers h s]\<rparr>"
    obtain y k where "block (map (print E) ?l2) ?s2 = (y, ?s2\<lparr>stdout := stdout ?s2 @ take k ?l2\<rparr>)"
      using block_prints_prefix [of ?l2 E ?s2] by blast
    moreover have "take n ?l1 = ?l1"
      using n None by simp
    moreover have "user_headers h (s\<lparr>stdout := x\<rparr>) = user_headers h s" for x
      by (cases h) (simp_all add: user_headers_def)
    ultimately have "stdout (snd (preview E m u h d j True s)) = stdout s @ ?l1 @ take k ?l2"
      unfolding preview_falsy [OF assms] b using None
      by (simp del: map_append append.simps take_append take_Cons')
    moreover have "?l1 @ take k ?l2 = take (length ?l1 + k) (?l1 @ ?l2)"
      by simp
    ultimately have "stdout (snd (preview E m u h d j True s)) =
        stdout s @ take (length ?l1 + k) (?l1 @ ?l2)"
      by (simp only:)
    then show ?thesis
      by (intro exI [of _ "length ?l1 + k"]) simp
  qed
qed

lemma make_request_sent_general:
  "sent (snd (make_request E m u h d j v s)) =
     sent s @ (if fst (preview E m u h d j v s) = None
               then [request_of m u h d j (snd (preview E m u h d j v s))] else [])"
proof (cases "preview E m u h d j v s")
  case (Pair x s1)
  have s1: "sent s1 = sent s"
    using preview_frame [of E m u h d j v s] Pair by auto
  show ?thesis
  proof (cases x)
    case None
    then show ?thesis
      using make_request_frame(2) [of E m u h d j v s s1] Pair s1 by simp
  next
    case (Some e)
    then show ?thesis
      using make_request_preview_raises [of E m u h d j v s e s1] Pair s1 by simp
  qed
qed

lemma item_line_eq: "item_line p = (\<lambda>(k, v). p @ k @ ascii '': '' @ v)"
  by (simp add: item_line_def fun_eq_iff)

lemma raise_for_status_error:
  assumes "400 \<le> status_code r" "status_code r \<le> 599"
  shows "\<exists>e. raise_for_status r = Some (HTTPError e (Some r))"
  using assms by (simp add: raise_for_status_def)

lemma raise_for_status_ok:
  assumes "status_code r \<le> 399"
  shows "raise_for_status r = None"
  using assms by (simp add: raise_for_status_def)

lemma try_block_transport_raises:
  assumes "transport E (request_of m u h d j s1) = Inl e"
  shows "try_block E m u h d j s1 = (Some e, s1\<lparr>sent := sent s1 @ [request_of m u h d j s1]\<rparr>)"
  using assms by (simp add: try_block_def Let_def)

lemma try_block_status_raises:
  assumes "transport E (request_of m u h d j s1) = Inr r" "raise_for_status r = Some e"
  shows "try_block E m u h d j s1 = (Some e, s1\<lparr>sent := sent s1 @ [request_of m u h d j s1]\<rparr>)"
  using assms by (simp add: try_block_def Let_def)

lemma try_block_renders:
  assumes "transport E (request_of m u h d j s1) = Inr r" "raise_for_status r = None"
  shows "try_block E m u h d j s1 =
     render_response E r (s1\<lparr>sent := sent s1 @ [request_of m u h d j s1]\<rparr>)"
  using assms by (simp add: try_block_def Let_def)

lemma handled_http_error:
  assumes "raise_for_status r = Some (HTTPError e (Some r))"
    and "print_error E (http_error_line e) = None"
  shows "except_clauses E (HTTPError e (Some r)) s2 =
     (None, s2\<lparr>stdout := stdout s2 @ [http_error_line e]\<rparr>)"
  using assms by (simp add: response_bool_def print_def)

lemma render_response_banner:
  assumes "print_error E banner_response = None"
  shows "\<exists>rest. stdout (snd (render_response E r s)) = stdout s @ banner_response # rest"
proof -
  let ?cs = "[print_value E (status_text r), print E title_headers,
      print_items E (ascii ''  '') (resp_headers r), render_body E r]"
  let ?s = "s\<lparr>stdout := stdout s @ [banner_response]\<rparr>"
  have "output_only (block ?cs)"
    by (rule output_only_block)
       (auto simp: output_only_print output_only_print_value output_only_print_items
          output_only_render_body)
  then obtain out where "stdout (snd (block ?cs ?s)) = stdout ?s @ out"
    using output_only_stdout by blast
  moreover have "render_response E r s = block ?cs ?s"
    using assms by (simp add: render_response_def print_def)
  ultimately show ?thesis
    by simp
qed

lemma handled_stdout:
  "\<exists>out. stdout (snd (case x of (None, s2) \<Rightarrow> (None, s2) | (Some e, s2) \<Rightarrow> except_clauses E e s2)) =
     stdout (snd x) @ out"
proof (cases x)
  case (Pair y s2)
  show ?thesis
  proof (cases y)
    case None
    then show ?thesis
      using Pair by simp
  next
    case (Some e)
    then show ?thesis
      using Pair output_only_stdout [OF output_only_except_clauses, of E e s2] by simp
  qed
qed

lemmas float_eval = version_text_def float_of_int_def round_double_def round_at_def
  double_carry_def double_range_def floorlog2_def floorlog2_near_def rne_div_def rne_pick_def
  bit_length.simps frac_of_float_def float_10_def shortest_def shortest_at_def digits_exp_def
  dec_exp_def digits.simps lead_zeros.simps try_digits_def try_frac_def try_floor_def
  try_near_far_def rounds_to_def float_fmt_def pow2_def pow10_def

lemma shortest_from_numeral:
  "shortest_from (numeral k) n f = found_or_next (pred_numeral k) n f (f n)"
  by (simp add: numeral_eq_Suc)

lemma version_text_11: "version_text 11 = Inr [49, 46, 49]"
  by (simp add: float_eval shortest_from_numeral)

lemma version_text_10: "version_text 10 = Inr [49, 46, 48]"
  by (simp add: float_eval shortest_from_numeral)

lemma preview_quiet_example:
  "preview (example_env answer) (ascii ''GET'') (ascii ''http://example.com/ping'') h None j False
      init_state =
     (None, \<lparr>heap = [], stdout = [sending_line (ascii ''GET'') (ascii ''http://example.com/ping'')],
            sent = []\<rparr>)"
  by (simp add: run_defs message_defs)

lemma render_response_ok:
  assumes "version_text (raw_version r) = Inr version"
    and "\<forall>msg. resp_json r \<noteq> JsonRaises msg"
    and "claimed_body E r = Inr body"
    and "can_print E
           ([banner_response, status_line version (str_int (status_code r)) (reason r),
             title_headers] @
            map (item_line (ascii ''  '')) (resp_headers r) @ [title_body, body])"
  shows "render_response E r s =
     (None, s\<lparr>stdout := stdout s @
        [banner_response, status_line version (str_int (status_code r)) (reason r),
         title_headers] @
        map (item_line (ascii ''  '')) (resp_headers r) @ [title_body, body]\<rparr>)"
proof -
  have p: "print_error E banner_response = None"
    "print_error E (status_line version (str_int (status_code r)) (reason r)) = None"
    "print_error E title_headers = None"
    "can_print E (map (item_line (ascii ''  '')) (resp_headers r))"
    "print_error E title_body = None" "print_error E body = None"
    using assms(4) by (simp_all add: can_print_def)
  have body: "render_json E r s' = (None, s'\<lparr>stdout := stdout s' @ [body]\<rparr>)" for s'
  proof (cases "resp_json r")
    case (Parsed v)
    then show ?thesis
      using assms(3) p(6) by (simp add: render_json_def claimed_body_def print_value_def print_def)
  next
    case JSONDecodeError
    then show ?thesis
      using assms(3) p(6) by (auto simp: render_json_def claimed_body_def print_def)
  next
    case (JsonRaises msg)
    then show ?thesis
      using assms(2) by simp
  qed
  show ?thesis
    using assms(1) p(1,2,3,5)
    by (simp add: render_response_def render_body_def status_text_def print_value_def print_def
          print_items_ok [OF p(4), simplified] body)
qed

section \<open>The claims\<close>

text \<open>
  C1 (the code fails the claim). The claim: a response with a status from 400 to 599 is
  reported by the HTTP error line and then, always, by its body text. The run of the
  specification's own scenario, a 404 response with the body \<open>{"error":"missing"}\<close>: only
  the HTTP error line is printed. The handler prints the body under \<open>if e.response:\<close>,
  and a response with such a status is false, so the body is never printed (lemma
  \<open>handled_http_error\<close> shows it for every response on which \<open>raise_for_status\<close> raises).
\<close>

theorem http_error_body_not_printed:
  "stdout (snd (make_request (example_env (Inr response_404)) (ascii ''POST'')
      (ascii ''http://example.com/items'') None None
      (JDict [(ascii ''name'', JStr (ascii ''x''))]) False init_state)) =
     [sending_line (ascii ''POST'') (ascii ''http://example.com/items''),
      http_error_line (ascii ''404 Client Error: Not Found for url: http://example.com/items'')]"
  by (simp add: make_request_def preview_def try_block_def request_of_def example_env_simps
        response_404_def raise_for_status_def response_bool_def init_state_def print_def
        ascii_upper_def str_int_def digits.simps Let_def utf8_can_print is_surrogate_def
        message_defs)

text \<open>
  C4 (counterexample to the claim as stated). A successful response whose body is 100000
  opening brackets: the body does not parse as JSON and is not empty, so the claim has
  it printed as raw text. \<open>response.json()\<close> raises \<open>RecursionError\<close>, which the inner
  \<open>except json.JSONDecodeError\<close> does not catch: after the title of the body the line of
  an unknown error is printed, and the body text is not.
\<close>

theorem other_json_failure_hides_body:
  "raise_for_status response_deep = None \<and>
   resp_text response_deep \<noteq> [] \<and>
   claimed_body (example_env (Inr response_deep)) response_deep = Inr (resp_text response_deep) \<and>
   make_request (example_env (Inr response_deep)) (ascii ''GET'') (ascii ''http://example.com/ping'')
      None None JNull False init_state =
     (None,
      \<lparr>heap = [],
       stdout = [sending_line (ascii ''GET'') (ascii ''http://example.com/ping''), banner_response,
                 status_line (ascii ''1.1'') (ascii ''200'') (ascii ''OK''), title_headers,
                 title_body,
                 unknown_error_line (ascii ''maximum recursion depth exceeded while decoding a JSON array from a unicode string'')],
       sent = [\<lparr>req_method = ascii ''GET'', req_url = ascii ''http://example.com/ping'',
                req_headers = None, req_data = None, req_json = JNull, req_timeout = 10\<rparr>]\<rparr>)"
proof -
  have ver: "version_text (raw_version response_deep) = Inr (ascii ''1.1'')"
    using version_text_11 by (simp add: response_deep_def)
  have run: "make_request (example_env (Inr response_deep)) (ascii ''GET'')
      (ascii ''http://example.com/ping'') None None JNull False init_state =
     (None,
      \<lparr>heap = [],
       stdout = [sending_line (ascii ''GET'') (ascii ''http://example.com/ping''), banner_response,
                 status_line (ascii ''1.1'') (ascii ''200'') (ascii ''OK''), title_headers,
                 title_body,
                 unknown_error_line (ascii ''maximum recursion depth exceeded while decoding a JSON array from a unicode string'')],
       sent = [\<lparr>req_method = ascii ''GET'', req_url = ascii ''http://example.com/ping'',
                req_headers = None, req_data = None, req_json = JNull, req_timeout = 10\<rparr>]\<rparr>)"
    using ver
    by (simp add: make_request_def preview_def try_block_def request_of_def render_response_def
          render_body_def render_json_def status_text_def print_items_def print_value_def
          raise_for_status_def print_def init_state_def str_int_def digits.simps ascii_upper_def
          example_env_simps utf8_can_print is_surrogate_def message_defs response_deep_def)
  show ?thesis
    using run by (simp add: raise_for_status_def claimed_body_def response_deep_def)
qed

text \<open>
  C4 (amended). For a successful response on which \<open>response.json()\<close> returns or raises
  \<open>json.JSONDecodeError\<close>, on which \<open>json.dumps\<close> returns, and whose lines standard output
  can encode, \<open>make_request\<close> returns after printing the success banner, the status
  line, the headers, the title of the body and the body line, and the body line is: the
  value of \<open>response.json()\<close> printed by \<open>json.dumps\<close> with \<open>indent=2\<close> and
  \<open>ensure_ascii=False\<close> when the body parses as JSON; the body text as it is when it does
  not parse and is not empty; the placeholder \<open>(U+65E0 U+54CD U+5E94 U+4F53)\<close>, six
  characters, when it does not parse and is empty.
\<close>

theorem response_body_rendering:
  assumes "preview E m u h d j v s = (None, s1)"
    and "transport E (request_of m u h d j s1) = Inr r"
    and "raise_for_status r = None"
    and "version_text (raw_version r) = Inr version"
    and "\<forall>msg. resp_json r \<noteq> JsonRaises msg"
    and "claimed_body E r = Inr body"
    and "can_print E
           ([banner_response, status_line version (str_int (status_code r)) (reason r),
             title_headers] @
            map (\<lambda>(k, v). ascii ''  '' @ k @ ascii '': '' @ v) (resp_headers r) @
            [title_body, body])"
  shows "make_request E m u h d j v s =
     (None,
      s1\<lparr>sent := sent s1 @ [request_of m u h d j s1],
         stdout := stdout s1 @
           [banner_response, status_line version (str_int (status_code r)) (reason r),
            title_headers] @
           map (\<lambda>(k, v). ascii ''  '' @ k @ ascii '': '' @ v) (resp_headers r) @
           [title_body, body]\<rparr>) \<and>
     (\<forall>response_json. resp_json r = Parsed response_json \<longrightarrow>
        json_dumps E 2 False response_json = Returns body) \<and>
     (resp_json r = JSONDecodeError \<and> resp_text r \<noteq> [] \<longrightarrow> body = resp_text r) \<and>
     (resp_json r = JSONDecodeError \<and> resp_text r = [] \<longrightarrow>
        body = [40, 26080, 21709, 24212, 20307, 41])"
proof -
  note can = assms(7) [folded item_line_eq]
  have run: "make_request E m u h d j v s =
     (None,
      s1\<lparr>sent := sent s1 @ [request_of m u h d j s1],
         stdout := stdout s1 @
           [banner_response, status_line version (str_int (status_code r)) (reason r),
            title_headers] @
           map (item_line (ascii ''  '')) (resp_headers r) @ [title_body, body]\<rparr>)"
    unfolding make_request_after_preview [OF assms(1)] try_block_renders [OF assms(2,3)]
      render_response_ok [OF assms(4,5,6) can]
    by simp
  have parsed: "json_dumps E 2 False response_json = Returns body"
    if "resp_json r = Parsed response_json" for response_json
    using assms(6) that
    by (cases "json_dumps E 2 False response_json") (simp_all add: claimed_body_def dumps_indented_def)
  have raw: "body = resp_text r" if "resp_json r = JSONDecodeError" "resp_text r \<noteq> []"
    using assms(6) that by (simp add: claimed_body_def)
  have none: "body = [40, 26080, 21709, 24212, 20307, 41]"
    if "resp_json r = JSONDecodeError" "resp_text r = []"
    using assms(6) that by (simp add: claimed_body_def no_body_def)
  show ?thesis
    using run [unfolded item_line_eq] parsed raw none by blast
qed

text \<open>
  The three renderings, run: an empty body (status 204), a JSON body, and a body of plain
  text.
\<close>

theorem response_body_rendering_witness:
  "stdout (snd (make_request (example_env (Inr response_204)) (ascii ''GET'')
      (ascii ''http://example.com/ping'') None None JNull False init_state)) =
     [sending_line (ascii ''GET'') (ascii ''http://example.com/ping''), banner_response,
      status_line (ascii ''1.1'') (ascii ''204'') (ascii ''No Content''), title_headers,
      title_body, [40, 26080, 21709, 24212, 20307, 41]] \<and>
   stdout (snd (make_request (example_env (Inr response_200)) (ascii ''GET'')
      (ascii ''http://example.com/ping'') None None JNull False init_state)) =
     [sending_line (ascii ''GET'') (ascii ''http://example.com/ping''), banner_response,
      status_line (ascii ''1.1'') (ascii ''200'') (ascii ''OK''), title_headers,
      ascii ''  Content-Type: application/json'',
      title_body, ascii ''{'' @ [10] @ ascii ''  \"ok\": true'' @ [10] @ ascii ''}''] \<and>
   stdout (snd (make_request (example_env (Inr response_text)) (ascii ''GET'')
      (ascii ''http://example.com/ping'') None None JNull False init_state)) =
     [sending_line (ascii ''GET'') (ascii ''http://example.com/ping''), banner_response,
      status_line (ascii ''1.0'') (ascii ''200'') (ascii ''OK''), title_headers,
      ascii ''  Content-Type: text/plain'',
      title_body, ascii ''pong'']"
proof -
  note pre = preview_quiet_example [of _ None JNull]
  have tr: "transport (example_env answer) req = Inr r" if "answer = Inr r" for answer req r
    using that by (simp add: example_env_simps)
  have ok: "raise_for_status response_204 = None" "raise_for_status response_200 = None"
    "raise_for_status response_text = None"
    by (simp_all add: raise_for_status_def response_204_def response_200_def response_text_def)
  have ver: "version_text (raw_version response_204) = Inr (ascii ''1.1'')"
    "version_text (raw_version response_200) = Inr (ascii ''1.1'')"
    "version_text (raw_version response_text) = Inr (ascii ''1.0'')"
    using version_text_11 version_text_10
    by (simp_all add: response_204_def response_200_def response_text_def)
  have nr: "\<forall>msg. resp_json response_204 \<noteq> JsonRaises msg"
    "\<forall>msg. resp_json response_200 \<noteq> JsonRaises msg"
    "\<forall>msg. resp_json response_text \<noteq> JsonRaises msg"
    by (simp_all add: response_204_def response_200_def response_text_def)
  have body: "claimed_body (example_env answer) response_204 =
      Inr [40, 26080, 21709, 24212, 20307, 41]"
    "claimed_body (example_env answer) response_200 =
      Inr (ascii ''{'' @ [10] @ ascii ''  \"ok\": true'' @ [10] @ ascii ''}'')"
    "claimed_body (example_env answer) response_text = Inr (ascii ''pong'')" for answer
    by (simp_all add: claimed_body_def response_204_def response_200_def response_text_def
          no_body_def dumps_indented_def example_env_simps example_dumps_def replicate_2)
  have can: "can_print (example_env answer)
      ([banner_response, status_line (ascii ''1.1'') (str_int (status_code response_204))
          (reason response_204), title_headers] @
       map (\<lambda>(k, v). ascii ''  '' @ k @ ascii '': '' @ v) (resp_headers response_204) @
       [title_body, [40, 26080, 21709, 24212, 20307, 41]])"
    "can_print (example_env answer)
      ([banner_response, status_line (ascii ''1.1'') (str_int (status_code response_200))
          (reason response_200), title_headers] @
       map (\<lambda>(k, v). ascii ''  '' @ k @ ascii '': '' @ v) (resp_headers response_200) @
       [title_body, ascii ''{'' @ [10] @ ascii ''  \"ok\": true'' @ [10] @ ascii ''}''])"
    "can_print (example_env answer)
      ([banner_response, status_line (ascii ''1.0'') (str_int (status_code response_text))
          (reason response_text), title_headers] @
       map (\<lambda>(k, v). ascii ''  '' @ k @ ascii '': '' @ v) (resp_headers response_text) @
       [title_body, ascii ''pong''])" for answer
    by (simp_all add: can_print_def example_env_simps utf8_can_print is_surrogate_def
          response_204_def response_200_def response_text_def message_defs str_int_def
          digits.simps)
  note A = response_body_rendering [OF pre tr [OF refl] ok(1) ver(1) nr(1) body(1) can(1),
      THEN conjunct1]
  note B = response_body_rendering [OF pre tr [OF refl] ok(2) ver(2) nr(2) body(2) can(2),
      THEN conjunct1]
  note C = response_body_rendering [OF pre tr [OF refl] ok(3) ver(3) nr(3) body(3) can(3),
      THEN conjunct1]
  have a: "stdout (snd (make_request (example_env (Inr response_204)) (ascii ''GET'')
      (ascii ''http://example.com/ping'') None None JNull False init_state)) =
     [sending_line (ascii ''GET'') (ascii ''http://example.com/ping''), banner_response,
      status_line (ascii ''1.1'') (ascii ''204'') (ascii ''No Content''), title_headers,
      title_body, [40, 26080, 21709, 24212, 20307, 41]]"
    unfolding A by (simp add: response_204_def str_int_def digits.simps)
  have b: "stdout (snd (make_request (example_env (Inr response_200)) (ascii ''GET'')
      (ascii ''http://example.com/ping'') None None JNull False init_state)) =
     [sending_line (ascii ''GET'') (ascii ''http://example.com/ping''), banner_response,
      status_line (ascii ''1.1'') (ascii ''200'') (ascii ''OK''), title_headers,
      ascii ''  Content-Type: application/json'',
      title_body, ascii ''{'' @ [10] @ ascii ''  \"ok\": true'' @ [10] @ ascii ''}'']"
    unfolding B by (simp add: response_200_def str_int_def digits.simps)
  have c: "stdout (snd (make_request (example_env (Inr response_text)) (ascii ''GET'')
      (ascii ''http://example.com/ping'') None None JNull False init_state)) =
     [sending_line (ascii ''GET'') (ascii ''http://example.com/ping''), banner_response,
      status_line (ascii ''1.0'') (ascii ''200'') (ascii ''OK''), title_headers,
      ascii ''  Content-Type: text/plain'',
      title_body, ascii ''pong'']"
    unfolding C by (simp add: response_text_def str_int_def digits.simps)
  from a b c show ?thesis
    by (intro conjI)
qed

text \<open>
  C6. A call of the transport carries the contents that the caller's \<open>headers\<close> dictionary
  had when \<open>make_request\<close> was entered, whatever the preview added to its own copy
  (\<open>make_request\<close> makes that call once, unless a \<open>print\<close> of the preview raises, and
  then it makes none), and no dictionary that existed before the call is changed.
\<close>

theorem transport_receives_original_headers:
  assumes "\<forall>a. headers = Some a \<longrightarrow> a < length (heap s)"
  shows "let res = make_request E m u headers d j v s
         in sent (snd res) =
              sent s @
              (if fst (preview E m u headers d j v s) = None
               then [\<lparr>req_method = m, req_url = u,
                      req_headers = map_option (\<lambda>a. heap s ! a) headers,
                      req_data = d, req_json = j, req_timeout = 10\<rparr>]
               else []) \<and>
            take (length (heap s)) (heap (snd res)) = heap s"
  using make_request_sent [OF assms, of E m u d j v] make_request_heap [of s E m u headers d j v]
  by (simp add: Let_def request_of_def)

text \<open>
  A verbose run with one user header and a JSON body: the preview's own dictionary has
  the \<open>Content-Type\<close> entry, the call of the transport has the user's header only.
\<close>

theorem transport_receives_original_headers_witness:
  "sent (snd (make_request (example_env (Inr response_200)) (ascii ''POST'')
      (ascii ''http://example.com/items'') (Some 0) None (JDict [(ascii ''a'', JInt 1)]) True
      \<lparr>heap = [[(ascii ''X-A'', ascii ''1'')]], stdout = [], sent = []\<rparr>)) =
     [\<lparr>req_method = ascii ''POST'', req_url = ascii ''http://example.com/items'',
       req_headers = Some [(ascii ''X-A'', ascii ''1'')], req_data = None,
       req_json = JDict [(ascii ''a'', JInt 1)], req_timeout = 10\<rparr>] \<and>
   heap (snd (preview (example_env (Inr response_200)) (ascii ''POST'')
      (ascii ''http://example.com/items'') (Some 0) None (JDict [(ascii ''a'', JInt 1)]) True
      \<lparr>heap = [[(ascii ''X-A'', ascii ''1'')]], stdout = [], sent = []\<rparr>)) =
     [[(ascii ''X-A'', ascii ''1'')],
      [(ascii ''X-A'', ascii ''1''), (ascii ''Content-Type'', ascii ''application/json'')]]"
proof -
  have pre: "preview (example_env (Inr response_200)) (ascii ''POST'')
      (ascii ''http://example.com/items'') (Some 0) None (JDict [(ascii ''a'', JInt 1)]) True
      \<lparr>heap = [[(ascii ''X-A'', ascii ''1'')]], stdout = [], sent = []\<rparr> =
     (None, \<lparr>heap = [[(ascii ''X-A'', ascii ''1'')],
       [(ascii ''X-A'', ascii ''1''), (ascii ''Content-Type'', ascii ''application/json'')]],
       stdout = [banner_request, request_line (ascii ''POST'') (ascii ''http://example.com/items''),
         ascii ''> Headers:'', ascii ''>   X-A: 1'', ascii ''>   Content-Type: application/json'',
         title_body_json, ascii ''{'' @ [10] @ ascii ''  \"a\": 1'' @ [10] @ ascii ''}'',
         separator], sent = []\<rparr>)"
    by (simp add: run_defs message_defs)
  show ?thesis
    using transport_receives_original_headers [of "Some 0"
      "\<lparr>heap = [[(ascii ''X-A'', ascii ''1'')]], stdout = [], sent = []\<rparr>"
      "example_env (Inr response_200)" "ascii ''POST''" "ascii ''http://example.com/items''"
      None "JDict [(ascii ''a'', JInt 1)]" True] pre
    by (simp add: Let_def)
qed

text \<open>
  C7 (counterexample to the claim as stated). A header value outside Latin-1 makes the
  transport raise \<open>UnicodeEncodeError\<close> before anything is sent: no response was received,
  yet the failure is reported by the line of an unknown error, which is not the line of a
  failed request. And with \<open>-v\<close> and the JSON body \<open>"\ud83d"\<close> (a string with a lone
  surrogate), the \<open>print\<close> of line 45, which stands before \<open>try\<close>, raises on a UTF-8
  terminal: the exception leaves \<open>make_request\<close>, and no request is made.
\<close>

theorem failure_before_response_reported_unknown:
  "\<not> response_received
       (example_env (Inl (OtherException
          ([39] @ ascii ''latin-1'' @ [39] @ ascii '' codec can'' @ [39] @
           ascii ''t encode character '' @ [39, 92] @ ascii ''u4e2d'' @ [39] @
           ascii '' in position 0: ordinal not in range(256)''))))
       \<lparr>req_method = ascii ''GET'', req_url = ascii ''http://example.com/ping'',
        req_headers = Some [(ascii ''X-Name'', [20013])], req_data = None, req_json = JNull,
        req_timeout = 10\<rparr> \<and>
   make_request
       (example_env (Inl (OtherException
          ([39] @ ascii ''latin-1'' @ [39] @ ascii '' codec can'' @ [39] @
           ascii ''t encode character '' @ [39, 92] @ ascii ''u4e2d'' @ [39] @
           ascii '' in position 0: ordinal not in range(256)''))))
       (ascii ''GET'') (ascii ''http://example.com/ping'') (Some 0) None JNull False
       \<lparr>heap = [[(ascii ''X-Name'', [20013])]], stdout = [], sent = []\<rparr> =
     (None,
      \<lparr>heap = [[(ascii ''X-Name'', [20013])]],
       stdout = [sending_line (ascii ''GET'') (ascii ''http://example.com/ping''),
                 unknown_error_line
                   ([39] @ ascii ''latin-1'' @ [39] @ ascii '' codec can'' @ [39] @
                    ascii ''t encode character '' @ [39, 92] @ ascii ''u4e2d'' @ [39] @
                    ascii '' in position 0: ordinal not in range(256)'')],
       sent = [\<lparr>req_method = ascii ''GET'', req_url = ascii ''http://example.com/ping'',
                req_headers = Some [(ascii ''X-Name'', [20013])], req_data = None,
                req_json = JNull, req_timeout = 10\<rparr>]\<rparr>) \<and>
   unknown_error_line
       ([39] @ ascii ''latin-1'' @ [39] @ ascii '' codec can'' @ [39] @
        ascii ''t encode character '' @ [39, 92] @ ascii ''u4e2d'' @ [39] @
        ascii '' in position 0: ordinal not in range(256)'') \<noteq>
     request_failed_line
       ([39] @ ascii ''latin-1'' @ [39] @ ascii '' codec can'' @ [39] @
        ascii ''t encode character '' @ [39, 92] @ ascii ''u4e2d'' @ [39] @
        ascii '' in position 0: ordinal not in range(256)'') \<and>
   make_request (example_env (Inr response_200)) (ascii ''GET'') (ascii ''http://example.com/ping'')
       None None (JStr [55357]) True init_state =
     (Some (OtherException
        ([39] @ ascii ''utf-8'' @ [39] @ ascii '' codec can'' @ [39] @
         ascii ''t encode character '' @ [39, 92] @ ascii ''ud83d'' @ [39] @
         ascii '' in position 1: surrogates not allowed'')),
      \<lparr>heap = [[(ascii ''Content-Type'', ascii ''application/json'')]],
       stdout = [banner_request, request_line (ascii ''GET'') (ascii ''http://example.com/ping''),
                 ascii ''> Headers:'', ascii ''>   Content-Type: application/json'',
                 title_body_json],
       sent = []\<rparr>)"
proof -
  have a: "utf8_print_error [34, 55357, 34] =
      Some ([39] @ ascii ''utf-8'' @ [39] @ ascii '' codec can'' @ [39] @
         ascii ''t encode character '' @ [39, 92] @ ascii ''ud83d'' @ [39] @
         ascii '' in position 1: surrogates not allowed'')"
    by (simp add: utf8_print_error_def is_surrogate_def hex4_def hex_digit_def digits.simps)
  show ?thesis
    using a by (simp add: run_defs message_defs except_clauses.simps)
qed

text \<open>
  C7 (amended). Once the preview is printed, \<open>make_request\<close> calls the transport exactly
  once (no retry), and the outcome goes by the class of the exception, not by its cause:
  a response with a status from 400 to 599 makes \<open>raise_for_status\<close> raise \<open>HTTPError\<close>,
  reported by the HTTP error line, once, and nothing else; a response with a status from
  100 to 399 is not an error and is rendered after the success banner; an exception of
  the class \<open>RequestException\<close> is reported by the line of a failed request, once; any
  other exception, of the transport or of the rendering of the response, is reported by
  the line of an unknown error, once. In each case \<open>make_request\<close> returns normally when
  standard output can encode the line. The three lines begin with three different
  texts, given here by their code points, and end with the message of the exception.
\<close>

theorem exceptions_classified_by_class:
  assumes "preview E m u h d j v s = (None, s1)"
  shows "let req = request_of m u h d j s1;
             res = make_request E m u h d j v s;
             out = drop (length (stdout s1)) (stdout (snd res))
         in sent (snd res) = sent s @ [req] \<and>
            stdout (snd res) = stdout s1 @ out \<and>
            (\<forall>r. transport E req = Inr r \<and> 400 \<le> status_code r \<and> status_code r \<le> 599 \<longrightarrow>
               (\<exists>e. raise_for_status r = Some (HTTPError e (Some r)) \<and>
                    (print_error E (http_error_line e) = None \<longrightarrow>
                       fst res = None \<and> out = [http_error_line e]))) \<and>
            (\<forall>r. transport E req = Inr r \<and> 100 \<le> status_code r \<and> status_code r \<le> 399 \<longrightarrow>
               raise_for_status r = None \<and>
               (print_error E banner_response = None \<longrightarrow> (\<exists>rest. out = banner_response # rest))) \<and>
            (\<forall>e. transport E req = Inl (RequestException e) \<and>
                 print_error E (request_failed_line e) = None \<longrightarrow>
               fst res = None \<and> out = [request_failed_line e]) \<and>
            (\<forall>e. transport E req = Inl (OtherException e) \<and>
                 print_error E (unknown_error_line e) = None \<longrightarrow>
               fst res = None \<and> out = [unknown_error_line e]) \<and>
            (\<forall>e s2. try_block E m u h d j s1 = (Some (OtherException e), s2) \<and>
                 print_error E (unknown_error_line e) = None \<longrightarrow>
               res = (None, s2\<lparr>stdout := stdout s2 @ [unknown_error_line e]\<rparr>)) \<and>
            (\<forall>s2. try_block E m u h d j s1 = (None, s2) \<longrightarrow> res = (None, s2)) \<and>
            (\<forall>e. http_error_line e = [10060, 32, 72, 84, 84, 80, 32, 38169, 35823, 58, 32] @ e \<and>
                 request_failed_line e =
                   [10060, 32, 35831, 27714, 22833, 36133, 65292, 35831, 26816, 26597, 85, 82, 76,
                    25110, 32593, 32476, 36830, 25509, 58, 32] @ e \<and>
                 unknown_error_line e =
                   [10060, 32, 21457, 29983, 26410, 30693, 38169, 35823, 58, 32] @ e)"
proof -
  let ?req = "request_of m u h d j s1"
  let ?res = "make_request E m u h d j v s"
  let ?out = "drop (length (stdout s1)) (stdout (snd ?res))"
  let ?s1 = "s1\<lparr>sent := sent s1 @ [?req]\<rparr>"
  note res = make_request_after_preview [OF assms]
  have s1: "sent s1 = sent s"
    using preview_frame [of E m u h d j v s] assms by simp
  have one: "sent (snd ?res) = sent s @ [?req]"
    using make_request_frame(2) [OF assms] s1 by simp
  have app: "stdout (snd ?res) = stdout s1 @ ?out"
    using make_request_frame(3) [OF assms] by auto
  have http: "\<exists>e. raise_for_status r = Some (HTTPError e (Some r)) \<and>
      (print_error E (http_error_line e) = None \<longrightarrow> fst ?res = None \<and> ?out = [http_error_line e])"
    if t: "transport E ?req = Inr r" and c1: "400 \<le> status_code r" and c2: "status_code r \<le> 599"
    for r
  proof -
    obtain e where e: "raise_for_status r = Some (HTTPError e (Some r))"
      using raise_for_status_error [OF c1 c2] by blast
    have "fst ?res = None \<and> ?out = [http_error_line e]"
      if p: "print_error E (http_error_line e) = None"
      unfolding res try_block_status_raises [OF t e] prod.case option.case
        handled_http_error [OF e p]
      by simp
    then show ?thesis
      using e by (intro exI [of _ e]) simp
  qed
  have succ: "raise_for_status r = None \<and>
      (print_error E banner_response = None \<longrightarrow> (\<exists>rest. ?out = banner_response # rest))"
    if t: "transport E ?req = Inr r" and c1: "100 \<le> status_code r" and c2: "status_code r \<le> 399"
    for r
  proof -
    have ok: "raise_for_status r = None"
      using c2 by (rule raise_for_status_ok)
    have "\<exists>rest. ?out = banner_response # rest" if p: "print_error E banner_response = None"
    proof -
      obtain rest where r: "stdout (snd (render_response E r ?s1)) =
          stdout ?s1 @ banner_response # rest"
        using render_response_banner [OF p] by blast
      obtain out where "stdout (snd ?res) = stdout (snd (render_response E r ?s1)) @ out"
        unfolding res try_block_renders [OF t ok]
        using handled_stdout [where x = "render_response E r ?s1" and E = E] by blast
      then have "?out = banner_response # rest @ out"
        using r by simp
      then show ?thesis
        by blast
    qed
    then show ?thesis
      using ok by blast
  qed
  have net: "fst ?res = None \<and> ?out = [request_failed_line e]"
    if "transport E ?req = Inl (RequestException e)" "print_error E (request_failed_line e) = None"
    for e
    unfolding res try_block_transport_raises [OF that(1)]
    using that(2) by (simp add: print_def)
  have unk: "fst ?res = None \<and> ?out = [unknown_error_line e]"
    if "transport E ?req = Inl (OtherException e)" "print_error E (unknown_error_line e) = None"
    for e
    unfolding res try_block_transport_raises [OF that(1)]
    using that(2) by (simp add: print_def)
  have handling: "?res = (None, s2\<lparr>stdout := stdout s2 @ [unknown_error_line e]\<rparr>)"
    if "try_block E m u h d j s1 = (Some (OtherException e), s2)"
      "print_error E (unknown_error_line e) = None" for e s2
    unfolding res that(1) using that(2) by (simp add: print_def)
  have completes: "?res = (None, s2)" if "try_block E m u h d j s1 = (None, s2)" for s2
    unfolding res that by simp
  have lines: "http_error_line e = [10060, 32, 72, 84, 84, 80, 32, 38169, 35823, 58, 32] @ e \<and>
      request_failed_line e =
        [10060, 32, 35831, 27714, 22833, 36133, 65292, 35831, 26816, 26597, 85, 82, 76,
         25110, 32593, 32476, 36830, 25509, 58, 32] @ e \<and>
      unknown_error_line e = [10060, 32, 21457, 29983, 26410, 30693, 38169, 35823, 58, 32] @ e"
    for e
    by (simp add: http_error_line_def request_failed_line_def unknown_error_line_def)
  show ?thesis
    unfolding Let_def
    using one app http succ net unk handling completes lines
    by (intro conjI allI impI) blast+
qed

text \<open>
  Four runs: a 404 response, a timeout, an exception of another class, and a 204
  response.
\<close>

theorem exceptions_classified_by_class_witness:
  "make_request (example_env (Inr response_404)) (ascii ''GET'') (ascii ''http://example.com/ping'')
      None None JNull False init_state =
     (None,
      \<lparr>heap = [],
       stdout = [sending_line (ascii ''GET'') (ascii ''http://example.com/ping''),
                 [10060, 32, 72, 84, 84, 80, 32, 38169, 35823, 58, 32] @
                 ascii ''404 Client Error: Not Found for url: http://example.com/items''],
       sent = [\<lparr>req_method = ascii ''GET'', req_url = ascii ''http://example.com/ping'',
                req_headers = None, req_data = None, req_json = JNull, req_timeout = 10\<rparr>]\<rparr>) \<and>
   make_request (example_env (Inl (RequestException (ascii ''timed out'')))) (ascii ''GET'')
      (ascii ''http://example.com/ping'') None None JNull False init_state =
     (None,
      \<lparr>heap = [],
       stdout = [sending_line (ascii ''GET'') (ascii ''http://example.com/ping''),
                 [10060, 32, 35831, 27714, 22833, 36133, 65292, 35831, 26816, 26597, 85, 82, 76,
                  25110, 32593, 32476, 36830, 25509, 58, 32] @ ascii ''timed out''],
       sent = [\<lparr>req_method = ascii ''GET'', req_url = ascii ''http://example.com/ping'',
                req_headers = None, req_data = None, req_json = JNull, req_timeout = 10\<rparr>]\<rparr>) \<and>
   make_request (example_env (Inl (OtherException (ascii ''boom'')))) (ascii ''GET'')
      (ascii ''http://example.com/ping'') None None JNull False init_state =
     (None,
      \<lparr>heap = [],
       stdout = [sending_line (ascii ''GET'') (ascii ''http://example.com/ping''),
                 [10060, 32, 21457, 29983, 26410, 30693, 38169, 35823, 58, 32] @ ascii ''boom''],
       sent = [\<lparr>req_method = ascii ''GET'', req_url = ascii ''http://example.com/ping'',
                req_headers = None, req_data = None, req_json = JNull, req_timeout = 10\<rparr>]\<rparr>) \<and>
   take 2 (stdout (snd (make_request (example_env (Inr response_204)) (ascii ''GET'')
      (ascii ''http://example.com/ping'') None None JNull False init_state))) =
     [sending_line (ascii ''GET'') (ascii ''http://example.com/ping''), banner_response]"
proof -
  let ?s1 = "\<lparr>heap = [], stdout = [sending_line (ascii ''GET'') (ascii ''http://example.com/ping'')],
      sent = []\<rparr>"
  let ?req = "\<lparr>req_method = ascii ''GET'', req_url = ascii ''http://example.com/ping'',
      req_headers = None, req_data = None, req_json = JNull, req_timeout = 10\<rparr>"
  have req: "request_of (ascii ''GET'') (ascii ''http://example.com/ping'') None None JNull ?s1 = ?req"
    by (simp add: request_of_def)
  have heap: "heap (snd (make_request (example_env answer) (ascii ''GET'')
      (ascii ''http://example.com/ping'') None None JNull False init_state)) = []" for answer
    using make_request_frame(1) [OF preview_quiet_example [of answer None JNull]] by simp
  have msg: "raise_for_status response_404 =
      Some (HTTPError (ascii ''404 Client Error: Not Found for url: http://example.com/items'')
        (Some response_404))"
    by (simp add: raise_for_status_def response_404_def str_int_def digits.simps)
  have st404: "400 \<le> status_code response_404" "status_code response_404 \<le> 599"
    by (simp_all add: response_404_def)
  have st204: "100 \<le> status_code response_204" "status_code response_204 \<le> 399"
    by (simp_all add: response_204_def)
  have can: "print_error (example_env answer)
      ([10060, 32, 72, 84, 84, 80, 32, 38169, 35823, 58, 32] @
       ascii ''404 Client Error: Not Found for url: http://example.com/items'') = None"
    "print_error (example_env answer)
      ([10060, 32, 35831, 27714, 22833, 36133, 65292, 35831, 26816, 26597, 85, 82, 76,
        25110, 32593, 32476, 36830, 25509, 58, 32] @ ascii ''timed out'') = None"
    "print_error (example_env answer)
      ([10060, 32, 21457, 29983, 26410, 30693, 38169, 35823, 58, 32] @ ascii ''boom'') = None"
    "print_error (example_env answer) banner_response = None" for answer
    by (simp_all add: example_env_simps utf8_can_print is_surrogate_def banner_response_def)
  note A = exceptions_classified_by_class [OF preview_quiet_example [of "Inr response_404" None JNull],
      unfolded Let_def req]
  note B = exceptions_classified_by_class [OF preview_quiet_example [of "Inl (RequestException (ascii ''timed out''))" None JNull],
      unfolded Let_def req]
  note C = exceptions_classified_by_class [OF preview_quiet_example [of "Inl (OtherException (ascii ''boom''))" None JNull],
      unfolded Let_def req]
  note D = exceptions_classified_by_class [OF preview_quiet_example [of "Inr response_204" None JNull],
      unfolded Let_def req]
  note one = conjunct1
  note app = conjunct2 [THEN conjunct1]
  note http = conjunct2 [THEN conjunct2, THEN conjunct1]
  note succ = conjunct2 [THEN conjunct2, THEN conjunct2, THEN conjunct1]
  note net = conjunct2 [THEN conjunct2, THEN conjunct2, THEN conjunct2, THEN conjunct1]
  note unk = conjunct2 [THEN conjunct2, THEN conjunct2, THEN conjunct2, THEN conjunct2,
      THEN conjunct1]
  note lines = conjunct2 [THEN conjunct2, THEN conjunct2, THEN conjunct2, THEN conjunct2,
      THEN conjunct2, THEN conjunct2, THEN conjunct2]
  have a: "make_request (example_env (Inr response_404)) (ascii ''GET'')
      (ascii ''http://example.com/ping'') None None JNull False init_state =
     (None, \<lparr>heap = [],
       stdout = [sending_line (ascii ''GET'') (ascii ''http://example.com/ping''),
                 [10060, 32, 72, 84, 84, 80, 32, 38169, 35823, 58, 32] @
                 ascii ''404 Client Error: Not Found for url: http://example.com/items''],
       sent = [?req]\<rparr>)"
    using http [OF A, rule_format, of response_404] app [OF A] one [OF A] st404 msg
      heap [of "Inr response_404"] can(1) [of "Inr response_404"]
      lines [OF A, rule_format, THEN conjunct1,
        of "ascii ''404 Client Error: Not Found for url: http://example.com/items''"]
    by (cases "make_request (example_env (Inr response_404)) (ascii ''GET'')
          (ascii ''http://example.com/ping'') None None JNull False init_state")
       (auto simp: example_env_simps init_state_def)
  have b: "make_request (example_env (Inl (RequestException (ascii ''timed out'')))) (ascii ''GET'')
      (ascii ''http://example.com/ping'') None None JNull False init_state =
     (None, \<lparr>heap = [],
       stdout = [sending_line (ascii ''GET'') (ascii ''http://example.com/ping''),
                 [10060, 32, 35831, 27714, 22833, 36133, 65292, 35831, 26816, 26597, 85, 82, 76,
                  25110, 32593, 32476, 36830, 25509, 58, 32] @ ascii ''timed out''],
       sent = [?req]\<rparr>)"
    using net [OF B, rule_format, of "ascii ''timed out''"] app [OF B] one [OF B]
      heap [of "Inl (RequestException (ascii ''timed out''))"]
      can(2) [of "Inl (RequestException (ascii ''timed out''))"]
      lines [OF B, rule_format, THEN conjunct2, THEN conjunct1, of "ascii ''timed out''"]
    by (cases "make_request (example_env (Inl (RequestException (ascii ''timed out''))))
          (ascii ''GET'') (ascii ''http://example.com/ping'') None None JNull False init_state")
       (auto simp: example_env_simps init_state_def)
  have c: "make_request (example_env (Inl (OtherException (ascii ''boom'')))) (ascii ''GET'')
      (ascii ''http://example.com/ping'') None None JNull False init_state =
     (None, \<lparr>heap = [],
       stdout = [sending_line (ascii ''GET'') (ascii ''http://example.com/ping''),
                 [10060, 32, 21457, 29983, 26410, 30693, 38169, 35823, 58, 32] @ ascii ''boom''],
       sent = [?req]\<rparr>)"
    using unk [OF C, rule_format, of "ascii ''boom''"] app [OF C] one [OF C]
      heap [of "Inl (OtherException (ascii ''boom''))"]
      can(3) [of "Inl (OtherException (ascii ''boom''))"]
      lines [OF C, rule_format, THEN conjunct2, THEN conjunct2, of "ascii ''boom''"]
    by (cases "make_request (example_env (Inl (OtherException (ascii ''boom''))))
          (ascii ''GET'') (ascii ''http://example.com/ping'') None None JNull False init_state")
       (auto simp: example_env_simps init_state_def)
  have d: "take 2 (stdout (snd (make_request (example_env (Inr response_204)) (ascii ''GET'')
      (ascii ''http://example.com/ping'') None None JNull False init_state))) =
     [sending_line (ascii ''GET'') (ascii ''http://example.com/ping''), banner_response]"
    using succ [OF D, rule_format, of response_204] app [OF D] st204 can(4) [of "Inr response_204"]
    by (auto simp: example_env_simps)
  from a b c d show ?thesis
    by (intro conjI)
qed

text \<open>
  C10. The values \<open>{}\<close>, \<open>""\<close>, \<open>0\<close>, \<open>false\<close> and \<open>null\<close> are false; for a false JSON body the
  preview is the preview of a request without a JSON body (no \<open>Content-Type\<close> entry, no
  JSON block), and an empty raw body is previewed as no raw body. With both absent the
  verbose preview prints lines of the banner, the request line, the user's headers and
  the separator only: an initial part of them in every run, and all of them when standard
  output can encode them. A call of the transport still carries the JSON body and the raw
  body as they were given.
\<close>

theorem falsy_bodies_left_out_of_preview:
  "\<not> truthy (JDict []) \<and> \<not> truthy (JStr []) \<and> \<not> truthy (JInt 0) \<and> \<not> truthy (JBool False) \<and>
   \<not> truthy JNull \<and>
   (\<not> truthy j \<longrightarrow> preview E m u h d j v s = preview E m u h d JNull v s) \<and>
   preview E m u h (Some []) j v s = preview E m u h None j v s \<and>
   (\<not> truthy j \<and> \<not> truthy_str d \<longrightarrow>
      (\<exists>n. stdout (snd (preview E m u h d j True s)) =
         stdout s @
         take n ([banner_request, request_line (str_upper E m) u, ascii ''> Headers:''] @
                 map (\<lambda>(k, v). ascii ''>   '' @ k @ ascii '': '' @ v)
                   (case h of None \<Rightarrow> [] | Some a \<Rightarrow> heap s ! a) @
                 [separator])) \<and>
      (can_print E ([banner_request, request_line (str_upper E m) u, ascii ''> Headers:''] @
                    map (\<lambda>(k, v). ascii ''>   '' @ k @ ascii '': '' @ v)
                      (case h of None \<Rightarrow> [] | Some a \<Rightarrow> heap s ! a) @
                    [separator]) \<longrightarrow>
       fst (preview E m u h d j True s) = None \<and>
       stdout (snd (preview E m u h d j True s)) =
         stdout s @ [banner_request, request_line (str_upper E m) u, ascii ''> Headers:''] @
         map (\<lambda>(k, v). ascii ''>   '' @ k @ ascii '': '' @ v)
           (case h of None \<Rightarrow> [] | Some a \<Rightarrow> heap s ! a) @
         [separator])) \<and>
   map req_json (sent (snd (make_request E m u h d j v s))) =
     map req_json (sent s) @ (if fst (preview E m u h d j v s) = None then [j] else []) \<and>
   map req_data (sent (snd (make_request E m u h d j v s))) =
     map req_data (sent s) @ (if fst (preview E m u h d j v s) = None then [d] else [])"
proof -
  let ?lines = "[banner_request, request_line (str_upper E m) u, ascii ''> Headers:''] @
      map (\<lambda>(k, v). ascii ''>   '' @ k @ ascii '': '' @ v)
        (case h of None \<Rightarrow> [] | Some a \<Rightarrow> heap s ! a) @ [separator]"
  have lines: "?lines = [banner_request, request_line (str_upper E m) u, ascii ''> Headers:''] @
      map (item_line (ascii ''>   '')) (user_headers h s) @ [separator]"
    by (simp only: item_line_eq user_headers_def)
  have same: "preview E m u h d j v s = preview E m u h d JNull v s" if "\<not> truthy j"
  proof -
    have fh: "final_headers h j = final_headers h JNull"
      using that by (simp add: fun_eq_iff final_headers_def)
    have pb: "preview_body E d j = preview_body E d JNull"
      using that by (cases d) (simp_all add: preview_body_def fun_eq_iff)
    have pr: "preview_rest E fh d j s' = preview_rest E fh d JNull s'" for fh s'
      unfolding preview_rest_def pb by (rule refl)
    show ?thesis
      unfolding preview_def fh pr by (rule refl)
  qed
  have empty: "preview E m u h (Some []) j v s = preview E m u h None j v s"
  proof -
    have pb: "preview_body E (Some []) j = preview_body E None j"
      by (simp add: preview_body_def fun_eq_iff)
    have pr: "preview_rest E fh (Some []) j s' = preview_rest E fh None j s'" for fh s'
      unfolding preview_rest_def pb by (rule refl)
    show ?thesis
      unfolding preview_def pr by (rule refl)
  qed
  have pre: "\<exists>n. stdout (snd (preview E m u h d j True s)) = stdout s @ take n ?lines"
    if "\<not> truthy j" "\<not> truthy_str d"
    unfolding lines using that by (rule preview_falsy_prefix)
  have full: "fst (preview E m u h d j True s) = None \<and>
      stdout (snd (preview E m u h d j True s)) = stdout s @ ?lines"
    if "\<not> truthy j" "\<not> truthy_str d" "can_print E ?lines"
  proof -
    note p = preview_falsy_ok [OF that(1,2) that(3) [unfolded lines]]
    show ?thesis
      unfolding lines p by simp
  qed
  have sent: "map req_json (sent (snd (make_request E m u h d j v s))) =
      map req_json (sent s) @ (if fst (preview E m u h d j v s) = None then [j] else [])"
    "map req_data (sent (snd (make_request E m u h d j v s))) =
      map req_data (sent s) @ (if fst (preview E m u h d j v s) = None then [d] else [])"
    by (simp_all add: make_request_sent_general request_of_def)
  have falsy: "\<not> truthy (JDict [])" "\<not> truthy (JStr [])" "\<not> truthy (JInt 0)"
    "\<not> truthy (JBool False)" "\<not> truthy JNull"
    by simp_all
  show ?thesis
    using falsy same empty pre full sent by (intro conjI impI) blast+
qed

text \<open>
  A verbose run with an empty raw body and the JSON body \<open>{}\<close>: five lines are printed,
  and the transport receives \<open>{}\<close>.
\<close>

theorem falsy_bodies_left_out_of_preview_witness:
  "stdout (snd (preview (example_env (Inr response_200)) (ascii ''post'')
      (ascii ''http://example.com/items'') (Some 0) (Some []) (JDict []) True
      \<lparr>heap = [[(ascii ''X-A'', ascii ''1'')]], stdout = [], sent = []\<rparr>)) =
     [banner_request, request_line (ascii ''POST'') (ascii ''http://example.com/items''),
      ascii ''> Headers:'', ascii ''>   X-A: 1'', separator] \<and>
   map req_json (sent (snd (make_request (example_env (Inr response_200)) (ascii ''post'')
      (ascii ''http://example.com/items'') (Some 0) (Some []) (JDict []) True
      \<lparr>heap = [[(ascii ''X-A'', ascii ''1'')]], stdout = [], sent = []\<rparr>))) = [JDict []]"
proof -
  note T = falsy_bodies_left_out_of_preview [of "JDict []" "example_env (Inr response_200)"
      "ascii ''post''" "ascii ''http://example.com/items''" "Some 0" "Some []" True
      "\<lparr>heap = [[(ascii ''X-A'', ascii ''1'')]], stdout = [], sent = []\<rparr>"]
  note rest = T [THEN conjunct2, THEN conjunct2, THEN conjunct2, THEN conjunct2, THEN conjunct2,
      THEN conjunct2, THEN conjunct2]
  have a: "fst (preview (example_env (Inr response_200)) (ascii ''post'')
      (ascii ''http://example.com/items'') (Some 0) (Some []) (JDict []) True
      \<lparr>heap = [[(ascii ''X-A'', ascii ''1'')]], stdout = [], sent = []\<rparr>) = None \<and>
    stdout (snd (preview (example_env (Inr response_200)) (ascii ''post'')
      (ascii ''http://example.com/items'') (Some 0) (Some []) (JDict []) True
      \<lparr>heap = [[(ascii ''X-A'', ascii ''1'')]], stdout = [], sent = []\<rparr>)) =
     [banner_request, request_line (ascii ''POST'') (ascii ''http://example.com/items''),
      ascii ''> Headers:'', ascii ''>   X-A: 1'', separator]"
    using rest [THEN conjunct1, rule_format, THEN conjunct2, rule_format]
    by (simp add: can_print_def example_env_simps utf8_can_print is_surrogate_def
          ascii_upper_def message_defs)
  have b: "map req_json (sent (snd (make_request (example_env (Inr response_200)) (ascii ''post'')
      (ascii ''http://example.com/items'') (Some 0) (Some []) (JDict []) True
      \<lparr>heap = [[(ascii ''X-A'', ascii ''1'')]], stdout = [], sent = []\<rparr>))) = [JDict []]"
    using rest [THEN conjunct2, THEN conjunct1] a by simp
  from a b show ?thesis
    by simp
qed

end
